theory Spec2Isabelle
  imports Complex_Main
begin

section \<open>EKF localization with known correspondences\<close>

text \<open>
  A shallow embedding of \<^verbatim>\<open>src/EKF_localization.cpp\<close>. The source computes with
  C++ \<^verbatim>\<open>double\<close>; the embedding computes with \<^typ>\<open>real\<close>, so rounding is not
  modelled: \<^verbatim>\<open>fabs\<close> is \<^const>\<open>abs\<close>, \<^verbatim>\<open>pow(x, 2)\<close> is \<open>x\<^sup>2\<close>, \<^verbatim>\<open>M_PI\<close> is
  \<^const>\<open>pi\<close> and the literal \<^verbatim>\<open>1e-4\<close> is \<open>1 / 10000\<close>. The one floating-point effect
  that is kept is a division by zero: in IEEE arithmetic it yields an infinity or a NaN,
  whereas \<open>x / 0 = 0\<close> in HOL, so every division whose divisor can be zero is a branch of
  the model.
\<close>

subsection \<open>Fixed-size vectors and matrices\<close>

text \<open>
  The Eigen types \<^verbatim>\<open>Matrix<double, r, c>\<close> of the source, one datatype per shape. A
  matrix is the sequence of its rows.
\<close>

datatype vec2 = Vec2 (v2_0: real) (v2_1: real)

datatype vec3 = Vec3 (v3_0: real) (v3_1: real) (v3_2: real)

datatype mat22 = Mat22 vec2 vec2

datatype mat23 = Mat23 vec3 vec3

datatype mat32 = Mat32 (m32_0: vec2) (m32_1: vec2) (m32_2: vec2)

datatype mat33 = Mat33 (m33_0: vec3) (m33_1: vec3) (m33_2: vec3)

fun add2 :: "vec2 \<Rightarrow> vec2 \<Rightarrow> vec2" where
  "add2 (Vec2 a0 a1) (Vec2 b0 b1) = Vec2 (a0 + b0) (a1 + b1)"

fun sub2 :: "vec2 \<Rightarrow> vec2 \<Rightarrow> vec2" where
  "sub2 (Vec2 a0 a1) (Vec2 b0 b1) = Vec2 (a0 - b0) (a1 - b1)"

fun add3 :: "vec3 \<Rightarrow> vec3 \<Rightarrow> vec3" where
  "add3 (Vec3 a0 a1 a2) (Vec3 b0 b1 b2) = Vec3 (a0 + b0) (a1 + b1) (a2 + b2)"

fun sub3 :: "vec3 \<Rightarrow> vec3 \<Rightarrow> vec3" where
  "sub3 (Vec3 a0 a1 a2) (Vec3 b0 b1 b2) = Vec3 (a0 - b0) (a1 - b1) (a2 - b2)"

fun dot2 :: "vec2 \<Rightarrow> vec2 \<Rightarrow> real" where
  "dot2 (Vec2 a0 a1) (Vec2 b0 b1) = a0 * b0 + a1 * b1"

fun add22 :: "mat22 \<Rightarrow> mat22 \<Rightarrow> mat22" where
  "add22 (Mat22 a0 a1) (Mat22 b0 b1) = Mat22 (add2 a0 b0) (add2 a1 b1)"

fun add33 :: "mat33 \<Rightarrow> mat33 \<Rightarrow> mat33" where
  "add33 (Mat33 a0 a1 a2) (Mat33 b0 b1 b2) = Mat33 (add3 a0 b0) (add3 a1 b1) (add3 a2 b2)"

fun sub33 :: "mat33 \<Rightarrow> mat33 \<Rightarrow> mat33" where
  "sub33 (Mat33 a0 a1 a2) (Mat33 b0 b1 b2) = Mat33 (sub3 a0 b0) (sub3 a1 b1) (sub3 a2 b2)"

definition identity33 :: mat33 where
  "identity33 = Mat33 (Vec3 1 0 0) (Vec3 0 1 0) (Vec3 0 0 1)"

definition identity22 :: mat22 where
  "identity22 = Mat22 (Vec2 1 0) (Vec2 0 1)"

fun transpose33 :: "mat33 \<Rightarrow> mat33" where
  "transpose33 (Mat33 (Vec3 a00 a01 a02) (Vec3 a10 a11 a12) (Vec3 a20 a21 a22)) =
     Mat33 (Vec3 a00 a10 a20) (Vec3 a01 a11 a21) (Vec3 a02 a12 a22)"

fun transpose32 :: "mat32 \<Rightarrow> mat23" where
  "transpose32 (Mat32 (Vec2 a00 a01) (Vec2 a10 a11) (Vec2 a20 a21)) =
     Mat23 (Vec3 a00 a10 a20) (Vec3 a01 a11 a21)"

fun transpose23 :: "mat23 \<Rightarrow> mat32" where
  "transpose23 (Mat23 (Vec3 a00 a01 a02) (Vec3 a10 a11 a12)) =
     Mat32 (Vec2 a00 a10) (Vec2 a01 a11) (Vec2 a02 a12)"

text \<open>A row times a matrix: the entries are summed in index order, as Eigen's product does.\<close>

fun row3_mat33 :: "vec3 \<Rightarrow> mat33 \<Rightarrow> vec3" where
  "row3_mat33 (Vec3 r0 r1 r2) (Mat33 (Vec3 b00 b01 b02) (Vec3 b10 b11 b12) (Vec3 b20 b21 b22)) =
     Vec3 (r0 * b00 + r1 * b10 + r2 * b20)
          (r0 * b01 + r1 * b11 + r2 * b21)
          (r0 * b02 + r1 * b12 + r2 * b22)"

fun row3_mat32 :: "vec3 \<Rightarrow> mat32 \<Rightarrow> vec2" where
  "row3_mat32 (Vec3 r0 r1 r2) (Mat32 (Vec2 b00 b01) (Vec2 b10 b11) (Vec2 b20 b21)) =
     Vec2 (r0 * b00 + r1 * b10 + r2 * b20) (r0 * b01 + r1 * b11 + r2 * b21)"

fun row2_mat22 :: "vec2 \<Rightarrow> mat22 \<Rightarrow> vec2" where
  "row2_mat22 (Vec2 r0 r1) (Mat22 (Vec2 b00 b01) (Vec2 b10 b11)) =
     Vec2 (r0 * b00 + r1 * b10) (r0 * b01 + r1 * b11)"

fun row2_mat23 :: "vec2 \<Rightarrow> mat23 \<Rightarrow> vec3" where
  "row2_mat23 (Vec2 r0 r1) (Mat23 (Vec3 b00 b01 b02) (Vec3 b10 b11 b12)) =
     Vec3 (r0 * b00 + r1 * b10) (r0 * b01 + r1 * b11) (r0 * b02 + r1 * b12)"

text \<open>The matrix products \<^verbatim>\<open>A*B\<close> that \<^verbatim>\<open>update\<close> forms, named by the two shapes.\<close>

fun mul33_33 :: "mat33 \<Rightarrow> mat33 \<Rightarrow> mat33" where
  "mul33_33 (Mat33 a0 a1 a2) B = Mat33 (row3_mat33 a0 B) (row3_mat33 a1 B) (row3_mat33 a2 B)"

fun mul33_32 :: "mat33 \<Rightarrow> mat32 \<Rightarrow> mat32" where
  "mul33_32 (Mat33 a0 a1 a2) B = Mat32 (row3_mat32 a0 B) (row3_mat32 a1 B) (row3_mat32 a2 B)"

fun mul32_22 :: "mat32 \<Rightarrow> mat22 \<Rightarrow> mat32" where
  "mul32_22 (Mat32 a0 a1 a2) B = Mat32 (row2_mat22 a0 B) (row2_mat22 a1 B) (row2_mat22 a2 B)"

fun mul32_23 :: "mat32 \<Rightarrow> mat23 \<Rightarrow> mat33" where
  "mul32_23 (Mat32 a0 a1 a2) B = Mat33 (row2_mat23 a0 B) (row2_mat23 a1 B) (row2_mat23 a2 B)"

fun mul23_33 :: "mat23 \<Rightarrow> mat33 \<Rightarrow> mat23" where
  "mul23_33 (Mat23 a0 a1) B = Mat23 (row3_mat33 a0 B) (row3_mat33 a1 B)"

fun mul23_32 :: "mat23 \<Rightarrow> mat32 \<Rightarrow> mat22" where
  "mul23_32 (Mat23 a0 a1) B = Mat22 (row3_mat32 a0 B) (row3_mat32 a1 B)"

fun mul22_22 :: "mat22 \<Rightarrow> mat22 \<Rightarrow> mat22" where
  "mul22_22 (Mat22 a0 a1) B = Mat22 (row2_mat22 a0 B) (row2_mat22 a1 B)"

fun mul32_vec2 :: "mat32 \<Rightarrow> vec2 \<Rightarrow> vec3" where
  "mul32_vec2 (Mat32 a0 a1 a2) z = Vec3 (dot2 a0 z) (dot2 a1 z) (dot2 a2 z)"

fun mul22_vec2 :: "mat22 \<Rightarrow> vec2 \<Rightarrow> vec2" where
  "mul22_vec2 (Mat22 a0 a1) z = Vec2 (dot2 a0 z) (dot2 a1 z)"

fun trace33 :: "mat33 \<Rightarrow> real" where
  "trace33 (Mat33 (Vec3 a00 a01 a02) (Vec3 a10 a11 a12) (Vec3 a20 a21 a22)) = a00 + a11 + a22"

subsection \<open>Non-finite results\<close>

text \<open>
  A division by zero leaves an infinity or a NaN in a \<^verbatim>\<open>double\<close>. Inside \<^verbatim>\<open>update\<close>
  such a value reaches every entry of the mean and of the covariance (each entry of the
  gain is a sum of products with the entries of the inverse), and no later operation of
  the loop makes an entry finite again. The model records this outcome as the error value
  \<open>NonFinite\<close>: the function has returned, and what it has stored is not a pose estimate.
\<close>

datatype error = NonFinite

text \<open>
  \<^verbatim>\<open>S.inverse()\<close> on a fixed-size 2x2 matrix is Eigen's closed form: the adjugate times
  \<^verbatim>\<open>1/determinant\<close>, computed without a test of the determinant.
\<close>

fun determinant22 :: "mat22 \<Rightarrow> real" where
  "determinant22 (Mat22 (Vec2 a b) (Vec2 c d)) = a * d - b * c"

fun adjugate22 :: "mat22 \<Rightarrow> real \<Rightarrow> mat22" where
  "adjugate22 (Mat22 (Vec2 a b) (Vec2 c d)) invdet =
     Mat22 (Vec2 (d * invdet) (- b * invdet)) (Vec2 (- c * invdet) (a * invdet))"

definition inverse22 :: "mat22 \<Rightarrow> error + mat22" where
  "inverse22 S =
     (if determinant22 S = 0 then Inl NonFinite
      else Inr (adjugate22 S (1 / determinant22 S)))"

subsection \<open>Angles\<close>

text \<open>
  \<^verbatim>\<open>EKF_localization::constrain_angle\<close>: one turn is added below \<open>-\<pi>\<close>, one turn is
  removed above \<open>\<pi>\<close>, and the argument is returned as it is otherwise.
\<close>

definition constrain_angle :: "real \<Rightarrow> real" where
  "constrain_angle radian =
     (if radian < - pi then radian + 2 * pi
      else if radian > pi then radian - 2 * pi
      else radian)"

text \<open>
  The C library's \<^verbatim>\<open>atan2(y, x)\<close> on the reals: the angle of the point \<open>(x, y)\<close> in
  \<open>(-\<pi>, \<pi>]\<close>, and 0 at the origin. (The reals have no signed zero, so the results
  \<open>-\<pi>\<close> and \<open>-0\<close> that \<^verbatim>\<open>atan2\<close> gives for \<open>y = -0\<close> do not arise.)
\<close>

definition atan2 :: "real \<Rightarrow> real \<Rightarrow> real" where
  "atan2 y x =
     (if x > 0 then arctan (y / x)
      else if x < 0 then (if y \<ge> 0 then arctan (y / x) + pi else arctan (y / x) - pi)
      else if y > 0 then pi / 2
      else if y < 0 then - (pi / 2)
      else 0)"

subsection \<open>Configuration\<close>

text \<open>The constants of \<^verbatim>\<open>config.h\<close> that the filter reads.\<close>

definition ALPHA1 :: real where "ALPHA1 = 1 / 10"

definition ALPHA2 :: real where "ALPHA2 = 0"

definition ALPHA3 :: real where "ALPHA3 = 1 / 10000"

definition ALPHA4 :: real where "ALPHA4 = 1 / 10"

definition ROBOT_VEL :: real where "ROBOT_VEL = 100"

definition ROBOT_YAW_VEL :: real where "ROBOT_YAW_VEL = 60 * pi / 180"

definition DETECTION_RANGE_ALPHA :: real where "DETECTION_RANGE_ALPHA = 1 / 10"

definition DETECTION_ANGLE_SIGMA :: real where "DETECTION_ANGLE_SIGMA = 2 * pi / 180"

text \<open>The local constant \<^verbatim>\<open>EPS\<close> of \<^verbatim>\<open>update\<close>.\<close>

definition EPS :: real where "EPS = 1 / 10000"

subsection \<open>Landmarks and the filter state\<close>

text \<open>
  A \<^verbatim>\<open>Landmark\<close> as \<^verbatim>\<open>update\<close> reads it: the known world position and the observed
  range and bearing. (The colour fields of the initialisers in \<^verbatim>\<open>config.h\<close> are not
  read by the filter.)
\<close>

record landmark =
  l_x :: real
  l_y :: real
  l_range :: real
  l_bearing :: real

text \<open>The members \<^verbatim>\<open>m_mu\<close>, \<^verbatim>\<open>m_cov\<close> and \<^verbatim>\<open>m_dt\<close> of \<^verbatim>\<open>EKF_localization\<close>.\<close>

record ekf =
  m_mu :: vec3
  m_cov :: mat33
  m_dt :: real

definition init_ekf :: "ekf \<Rightarrow> ekf" where
  "init_ekf st = st\<lparr>m_cov := Mat33 (Vec3 0 0 0) (Vec3 0 0 0) (Vec3 0 0 0)\<rparr>"

definition set_state :: "real \<Rightarrow> real \<Rightarrow> real \<Rightarrow> ekf \<Rightarrow> ekf" where
  "set_state x y yaw st = st\<lparr>m_mu := Vec3 x y yaw\<rparr>"

fun pose_x :: "ekf \<Rightarrow> real" where
  "pose_x st = (case m_mu st of Vec3 x y \<theta> \<Rightarrow> x)"

fun pose_y :: "ekf \<Rightarrow> real" where
  "pose_y st = (case m_mu st of Vec3 x y \<theta> \<Rightarrow> y)"

text \<open>
  Modelled from the spec: the accessor \<^verbatim>\<open>yaw()\<close> is defined in
  \<^verbatim>\<open>EKF_localization.h\<close>, which is not among the sources; the accessors "read current
  \<open>\<mu>\<close> components", and \<^verbatim>\<open>set_state\<close> stores the yaw in \<^verbatim>\<open>m_mu(2)\<close>.
\<close>

fun yaw :: "ekf \<Rightarrow> real" where
  "yaw st = (case m_mu st of Vec3 x y \<theta> \<Rightarrow> \<theta>)"

subsection \<open>Prediction\<close>

text \<open>The motion noise \<^verbatim>\<open>M\<close>: zeroed, then its diagonal is set.\<close>

definition motion_noise :: "real \<Rightarrow> real \<Rightarrow> mat22" where
  "motion_noise v w =
     Mat22 (Vec2 ((ALPHA1 * \<bar>v\<bar> + ALPHA2 * \<bar>w\<bar>)\<^sup>2) 0)
           (Vec2 0 ((ALPHA3 * \<bar>v\<bar> + ALPHA4 * \<bar>w\<bar>)\<^sup>2))"

text \<open>
  The Jacobian \<^verbatim>\<open>G\<close>: the identity, with the entries \<^verbatim>\<open>(0, 2)\<close> and \<^verbatim>\<open>(1, 2)\<close>
  set by the branch taken; \<open>G_arc\<close> is what the branch \<^verbatim>\<open>fabs(w) > EPS\<close> leaves in
  \<^verbatim>\<open>G\<close>, \<open>G_line\<close> what the other branch leaves.
\<close>

definition G_arc :: "real \<Rightarrow> real \<Rightarrow> real \<Rightarrow> real \<Rightarrow> mat33" where
  "G_arc v w dt \<theta> =
     Mat33 (Vec3 1 0 (- (v / w) * cos \<theta> + (v / w) * cos (\<theta> + w * dt)))
           (Vec3 0 1 (- (v / w) * sin \<theta> + (v / w) * sin (\<theta> + w * dt)))
           (Vec3 0 0 1)"

definition G_line :: "real \<Rightarrow> real \<Rightarrow> real \<Rightarrow> mat33" where
  "G_line v dt \<theta> =
     Mat33 (Vec3 1 0 (- v * sin \<theta> * dt))
           (Vec3 0 1 (v * cos \<theta> * dt))
           (Vec3 0 0 1)"

definition jacobian_G :: "real \<Rightarrow> real \<Rightarrow> real \<Rightarrow> real \<Rightarrow> mat33" where
  "jacobian_G v w dt \<theta> = (if \<bar>w\<bar> > EPS then G_arc v w dt \<theta> else G_line v dt \<theta>)"

text \<open>The Jacobian \<^verbatim>\<open>V\<close>: every entry is set by the branch taken.\<close>

definition V_arc :: "real \<Rightarrow> real \<Rightarrow> real \<Rightarrow> real \<Rightarrow> mat32" where
  "V_arc v w dt \<theta> =
     Mat32 (Vec2 ((- sin \<theta> + sin (\<theta> + w * dt)) / w)
                 (v * (sin \<theta> - sin (\<theta> + w * dt)) / (w * w) + v * cos (\<theta> + w * dt) * dt / w))
           (Vec2 ((cos \<theta> - cos (\<theta> + w * dt)) / w)
                 (- v * (cos \<theta> - cos (\<theta> + w * dt)) / (w * w) + v * sin (\<theta> + w * dt) * dt / w))
           (Vec2 0 dt)"

definition V_line :: "real \<Rightarrow> real \<Rightarrow> real \<Rightarrow> mat32" where
  "V_line v dt \<theta> =
     Mat32 (Vec2 (cos \<theta> * dt) (- v * sin \<theta> * dt * dt * (1 / 2)))
           (Vec2 (sin \<theta> * dt) (v * cos \<theta> * dt * dt * (1 / 2)))
           (Vec2 0 dt)"

definition jacobian_V :: "real \<Rightarrow> real \<Rightarrow> real \<Rightarrow> real \<Rightarrow> mat32" where
  "jacobian_V v w dt \<theta> = (if \<bar>w\<bar> > EPS then V_arc v w dt \<theta> else V_line v dt \<theta>)"

text \<open>The predicted mean \<^verbatim>\<open>MU\<close>; \<open>\<theta>\<close> is the previous yaw read through \<^verbatim>\<open>yaw()\<close>.\<close>

fun predicted_mean :: "real \<Rightarrow> real \<Rightarrow> real \<Rightarrow> real \<Rightarrow> vec3 \<Rightarrow> vec3" where
  "predicted_mean v w dt \<theta> (Vec3 mu0 mu1 mu2) =
     (if \<bar>w\<bar> > EPS then
        Vec3 (mu0 - (v / w) * sin \<theta> + (v / w) * sin (\<theta> + w * dt))
             (mu1 + (v / w) * cos \<theta> - (v / w) * cos (\<theta> + w * dt))
             (mu2 + w * dt)
      else
        Vec3 (mu0 + v * cos \<theta> * dt) (mu1 + v * sin \<theta> * dt) mu2)"

text \<open>\<^verbatim>\<open>COV = G*m_cov*G.transpose() + V*M*V.transpose()\<close>, the same line in both branches.\<close>

definition predicted_cov :: "mat33 \<Rightarrow> mat32 \<Rightarrow> mat22 \<Rightarrow> mat33 \<Rightarrow> mat33" where
  "predicted_cov G V M cov =
     add33 (mul33_33 (mul33_33 G cov) (transpose33 G))
           (mul32_23 (mul32_22 V M) (transpose32 V))"

text \<open>Lines 52 to 104 of \<^verbatim>\<open>update\<close>: the local pair \<^verbatim>\<open>(MU, COV)\<close> before the loop.\<close>

definition predict :: "real \<Rightarrow> real \<Rightarrow> real \<Rightarrow> ekf \<Rightarrow> vec3 \<times> mat33" where
  "predict v w dt st =
     (let \<theta> = yaw st
      in (predicted_mean v w dt \<theta> (m_mu st),
          predicted_cov (jacobian_G v w dt \<theta>) (jacobian_V v w dt \<theta>) (motion_noise v w)
            (m_cov st)))"

subsection \<open>Correction\<close>

text \<open>
  \<^verbatim>\<open>Robot::landmark_range_bearing\<close> belongs to the robot model (\<^verbatim>\<open>robot.h\<close>), not to
  the filter; it is a parameter \<open>lrb\<close> of the correction: from a landmark and a pose
  \<open>(x, y, \<theta>)\<close> it gives the expected range and bearing (the locals \<^verbatim>\<open>range\<close> and \<^verbatim>\<open>bearing\<close> of the
  source, \<open>range_hat\<close> and \<open>bearing_hat\<close> below).
\<close>

type_synonym range_bearing = "landmark \<Rightarrow> real \<Rightarrow> real \<Rightarrow> real \<Rightarrow> real \<times> real"

text \<open>The measurement Jacobian \<^verbatim>\<open>H\<close> at the mean \<^verbatim>\<open>MU\<close> for the expected range.\<close>

fun jacobian_H :: "landmark \<Rightarrow> vec3 \<Rightarrow> real \<Rightarrow> mat23" where
  "jacobian_H l (Vec3 mu0 mu1 mu2) range_hat =
     Mat23 (Vec3 (- (l_x l - mu0) / range_hat) (- (l_y l - mu1) / range_hat) 0)
           (Vec3 ((l_y l - mu1) / (range_hat * range_hat)) (- (l_x l - mu0) / (range_hat * range_hat)) (- 1))"

text \<open>The measurement noise \<^verbatim>\<open>Q\<close>: zeroed, then its diagonal is set from the observation.\<close>

definition measurement_noise :: "landmark \<Rightarrow> mat22" where
  "measurement_noise l =
     Mat22 (Vec2 ((l_range l * DETECTION_RANGE_ALPHA)\<^sup>2) 0)
           (Vec2 0 (DETECTION_ANGLE_SIGMA\<^sup>2))"

definition innovation_cov :: "mat23 \<Rightarrow> mat33 \<Rightarrow> mat22 \<Rightarrow> mat22" where
  "innovation_cov H COV Q = add22 (mul23_32 (mul23_33 H COV) (transpose23 H)) Q"

fun wrap_heading :: "vec3 \<Rightarrow> vec3" where
  "wrap_heading (Vec3 mu0 mu1 mu2) = Vec3 mu0 mu1 (constrain_angle mu2)"

text \<open>
  The body of \<^verbatim>\<open>if (fabs(l.range) > EPS)\<close>, lines 111 to 133. The expected range divides
  the entries of \<^verbatim>\<open>H\<close> and the determinant of \<^verbatim>\<open>S\<close> divides in \<^verbatim>\<open>S.inverse()\<close>; the
  source tests neither.
\<close>

definition fuse :: "range_bearing \<Rightarrow> landmark \<Rightarrow> vec3 \<times> mat33 \<Rightarrow> error + vec3 \<times> mat33" where
  "fuse lrb l belief =
     (case belief of (MU, COV) \<Rightarrow>
      (case MU of Vec3 mu0 mu1 mu2 \<Rightarrow>
       (case lrb l mu0 mu1 mu2 of (range_hat, bearing_hat) \<Rightarrow>
          if range_hat = 0 then Inl NonFinite
          else
            let Z = Vec2 (l_range l) (l_bearing l);
                ZHAT = Vec2 range_hat bearing_hat;
                H = jacobian_H l MU range_hat;
                Q = measurement_noise l;
                S = innovation_cov H COV Q
            in (case inverse22 S of
                  Inl e \<Rightarrow> Inl e
                | Inr Sinv \<Rightarrow>
                    let K = mul32_22 (mul33_32 COV (transpose23 H)) Sinv;
                        MU' = add3 MU (mul32_vec2 K (sub2 Z ZHAT));
                        COV' = mul33_33 (sub33 identity33 (mul32_23 K H)) COV
                    in Inr (wrap_heading MU', COV')))))"

text \<open>One iteration of the loop over the landmarks.\<close>

definition correct :: "range_bearing \<Rightarrow> landmark \<Rightarrow> vec3 \<times> mat33 \<Rightarrow> error + vec3 \<times> mat33" where
  "correct lrb l belief = (if \<bar>l_range l\<bar> > EPS then fuse lrb l belief else Inr belief)"

text \<open>The loop \<^verbatim>\<open>for (const auto &l : landmarks)\<close>, in list order.\<close>

fun correct_all :: "range_bearing \<Rightarrow> landmark list \<Rightarrow> vec3 \<times> mat33 \<Rightarrow> error + vec3 \<times> mat33" where
  "correct_all lrb [] belief = Inr belief"
| "correct_all lrb (l # ls) belief =
     (case correct lrb l belief of
        Inl e \<Rightarrow> Inl e
      | Inr belief' \<Rightarrow> correct_all lrb ls belief')"

text \<open>
  \<^verbatim>\<open>EKF_localization::update\<close>: \<^verbatim>\<open>m_dt\<close> is stored, the prediction and the loop work
  on the locals, and \<^verbatim>\<open>m_mu\<close> and \<^verbatim>\<open>m_cov\<close> are stored after the loop.
\<close>

definition update :: "range_bearing \<Rightarrow> real \<Rightarrow> real \<Rightarrow> landmark list \<Rightarrow> real \<Rightarrow> ekf \<Rightarrow> error + ekf" where
  "update lrb v w landmarks dt st =
     (case correct_all lrb landmarks (predict v w dt (st\<lparr>m_dt := dt\<rparr>)) of
        Inl e \<Rightarrow> Inl e
      | Inr (MU, COV) \<Rightarrow> Inr (st\<lparr>m_dt := dt, m_mu := MU, m_cov := COV\<rparr>))"

subsection \<open>Uncertainty ellipse\<close>

text \<open>
  \<^verbatim>\<open>SelfAdjointEigenSolver<Matrix2d>\<close> is Eigen's; what \<^verbatim>\<open>ellipse\<close> reads from it
  are the two eigenvalues and the matrix whose columns are the eigenvectors. The solver
  is a parameter of the model.
\<close>

record eigen_solver =
  eigenvalues :: vec2
  eigenvectors :: mat22

text \<open>
  \<^verbatim>\<open>EKF_localization::ellipse\<close>, returning \<^verbatim>\<open>(major, minor, theta)\<close>. The square
  root of a negative \<^verbatim>\<open>double\<close> is a NaN, whereas \<^const>\<open>sqrt\<close> is odd in HOL; a
  negative eigenvalue is therefore a branch of its own.
\<close>

definition ellipse :: "(mat22 \<Rightarrow> eigen_solver) \<Rightarrow> mat22 \<Rightarrow> error + real \<times> real \<times> real" where
  "ellipse solver X =
     (let a = solver X in
      (case eigenvalues a of Vec2 ev0 ev1 \<Rightarrow>
       (case eigenvectors a of Mat22 (Vec2 q00 q01) (Vec2 q10 q11) \<Rightarrow>
          if ev0 < 0 \<or> ev1 < 0 then Inl NonFinite
          else
            let e0 = sqrt ev0; e1 = sqrt ev1
            in if e0 > e1 then Inr (e0, e1, atan2 q10 q00)
               else Inr (e1, e0, atan2 q11 q01))))"

text \<open>\<^verbatim>\<open>m_cov.block(0, 0, 2, 2)\<close>, the position block of the covariance.\<close>

fun block22 :: "mat33 \<Rightarrow> mat22" where
  "block22 (Mat33 (Vec3 a00 a01 a02) (Vec3 a10 a11 a12) (Vec3 a20 a21 a22)) =
     Mat22 (Vec2 a00 a01) (Vec2 a10 a11)"

definition pose_ellipse :: "(mat22 \<Rightarrow> eigen_solver) \<Rightarrow> ekf \<Rightarrow> error + real \<times> real \<times> real" where
  "pose_ellipse solver st = ellipse solver (block22 (m_cov st))"



text \<open>A symmetric positive-semidefinite 2x2 matrix: \<open>z\<^sup>T X z \<ge> 0\<close> for every \<open>z\<close>.\<close>

fun symmetric22 :: "mat22 \<Rightarrow> bool" where
  "symmetric22 (Mat22 (Vec2 a b) (Vec2 c d)) = (b = c)"


text \<open>A positive-semidefinite 3x3 matrix, by the same quadratic form.\<close>

fun dot3 :: "vec3 \<Rightarrow> vec3 \<Rightarrow> real" where
  "dot3 (Vec3 a0 a1 a2) (Vec3 b0 b1 b2) = a0 * b0 + a1 * b1 + a2 * b2"

fun mul33_vec3 :: "mat33 \<Rightarrow> vec3 \<Rightarrow> vec3" where
  "mul33_vec3 (Mat33 a0 a1 a2) z = Vec3 (dot3 a0 z) (dot3 a1 z) (dot3 a2 z)"

definition psd33 :: "mat33 \<Rightarrow> bool" where
  "psd33 X = (\<forall>z. 0 \<le> dot3 z (mul33_vec3 X z))"

text \<open>
  The covariance the filter is meant to carry: symmetric and positive semidefinite.
  \<open>mul23_vec3\<close> is the product of the measurement Jacobian with a state vector.
\<close>

fun mul23_vec3 :: "mat23 \<Rightarrow> vec3 \<Rightarrow> vec2" where
  "mul23_vec3 (Mat23 a0 a1) z = Vec2 (dot3 a0 z) (dot3 a1 z)"

fun symmetric33 :: "mat33 \<Rightarrow> bool" where
  "symmetric33 (Mat33 (Vec3 a00 a01 a02) (Vec3 a10 a11 a12) (Vec3 a20 a21 a22)) =
     (a01 = a10 \<and> a02 = a20 \<and> a12 = a21)"

definition cov_ok :: "mat33 \<Rightarrow> bool" where
  "cov_ok \<Sigma> = (symmetric33 \<Sigma> \<and> psd33 \<Sigma>)"

subsection \<open>Landmark geometry\<close>

text \<open>
  Modelled from the spec: \<^verbatim>\<open>Robot::landmark_range_bearing\<close> is defined in the robot
  model, which is not among the sources. "Given a landmark's true (x, y) and a candidate
  robot pose (x, y, \<open>\<theta>\<close>), returns the true range and bearing from that pose to that
  landmark", by "exact trigonometric geometry". It instantiates the parameter \<open>lrb\<close> at
  concrete inputs only; no property below depends on it.
\<close>

definition landmark_range_bearing :: range_bearing where
  "landmark_range_bearing l x y \<theta> =
     (sqrt ((l_x l - x)\<^sup>2 + (l_y l - y)\<^sup>2), atan2 (l_y l - y) (l_x l - x) - \<theta>)"

subsection \<open>Reference motion models\<close>

text \<open>
  The motion models as the specification words them, for comparison with the code: the
  circular-arc closed form of the velocity motion model, and the straight-line form.
\<close>

definition arc_motion :: "real \<Rightarrow> real \<Rightarrow> real \<Rightarrow> vec3 \<Rightarrow> vec3" where
  "arc_motion v w dt p =
     (case p of Vec3 x y \<theta> \<Rightarrow>
        Vec3 (x - (v / w) * sin \<theta> + (v / w) * sin (\<theta> + w * dt))
             (y + (v / w) * cos \<theta> - (v / w) * cos (\<theta> + w * dt))
             (\<theta> + w * dt))"


text \<open>
  \<open>J\<close> is the matrix of the partial derivatives of \<open>f\<close> at the state \<open>p\<close>, and of
  \<open>f\<close> at the control \<open>(v, w)\<close>.
\<close>

definition state_jacobian :: "(vec3 \<Rightarrow> vec3) \<Rightarrow> vec3 \<Rightarrow> mat33 \<Rightarrow> bool" where
  "state_jacobian f p J =
     (case p of Vec3 x y \<theta> \<Rightarrow>
      (case J of Mat33 (Vec3 j00 j01 j02) (Vec3 j10 j11 j12) (Vec3 j20 j21 j22) \<Rightarrow>
         ((\<lambda>t. v3_0 (f (Vec3 t y \<theta>))) has_real_derivative j00) (at x)
       \<and> ((\<lambda>t. v3_0 (f (Vec3 x t \<theta>))) has_real_derivative j01) (at y)
       \<and> ((\<lambda>t. v3_0 (f (Vec3 x y t))) has_real_derivative j02) (at \<theta>)
       \<and> ((\<lambda>t. v3_1 (f (Vec3 t y \<theta>))) has_real_derivative j10) (at x)
       \<and> ((\<lambda>t. v3_1 (f (Vec3 x t \<theta>))) has_real_derivative j11) (at y)
       \<and> ((\<lambda>t. v3_1 (f (Vec3 x y t))) has_real_derivative j12) (at \<theta>)
       \<and> ((\<lambda>t. v3_2 (f (Vec3 t y \<theta>))) has_real_derivative j20) (at x)
       \<and> ((\<lambda>t. v3_2 (f (Vec3 x t \<theta>))) has_real_derivative j21) (at y)
       \<and> ((\<lambda>t. v3_2 (f (Vec3 x y t))) has_real_derivative j22) (at \<theta>)))"

definition control_jacobian :: "(real \<Rightarrow> real \<Rightarrow> vec3) \<Rightarrow> real \<Rightarrow> real \<Rightarrow> mat32 \<Rightarrow> bool" where
  "control_jacobian f v w J =
     (case J of Mat32 (Vec2 j00 j01) (Vec2 j10 j11) (Vec2 j20 j21) \<Rightarrow>
         ((\<lambda>t. v3_0 (f t w)) has_real_derivative j00) (at v)
       \<and> ((\<lambda>t. v3_0 (f v t)) has_real_derivative j01) (at w)
       \<and> ((\<lambda>t. v3_1 (f t w)) has_real_derivative j10) (at v)
       \<and> ((\<lambda>t. v3_1 (f v t)) has_real_derivative j11) (at w)
       \<and> ((\<lambda>t. v3_2 (f t w)) has_real_derivative j20) (at v)
       \<and> ((\<lambda>t. v3_2 (f v t)) has_real_derivative j21) (at w))"

text \<open>
  Matrices by their coefficients, with indices from 0 as in \<^verbatim>\<open>A(i, j)\<close>: the
  coefficient \<open>(i, j)\<close> of a matrix, and the 3x3 matrix with given coefficients. They
  state a matrix product the way it is defined, by its sums.
\<close>

fun coeff2 :: "vec2 \<Rightarrow> nat \<Rightarrow> real" where
  "coeff2 (Vec2 a0 a1) k = (if k = 0 then a0 else a1)"

fun coeff3 :: "vec3 \<Rightarrow> nat \<Rightarrow> real" where
  "coeff3 (Vec3 a0 a1 a2) k = (if k = 0 then a0 else if k = 1 then a1 else a2)"

fun coeff22 :: "mat22 \<Rightarrow> nat \<Rightarrow> nat \<Rightarrow> real" where
  "coeff22 (Mat22 r0 r1) i j = coeff2 (if i = 0 then r0 else r1) j"

fun coeff32 :: "mat32 \<Rightarrow> nat \<Rightarrow> nat \<Rightarrow> real" where
  "coeff32 (Mat32 r0 r1 r2) i j = coeff2 (if i = 0 then r0 else if i = 1 then r1 else r2) j"

fun coeff33 :: "mat33 \<Rightarrow> nat \<Rightarrow> nat \<Rightarrow> real" where
  "coeff33 (Mat33 r0 r1 r2) i j = coeff3 (if i = 0 then r0 else if i = 1 then r1 else r2) j"

definition mat33_of :: "(nat \<Rightarrow> nat \<Rightarrow> real) \<Rightarrow> mat33" where
  "mat33_of f =
     Mat33 (Vec3 (f 0 0) (f 0 1) (f 0 2)) (Vec3 (f 1 0) (f 1 1) (f 1 2)) (Vec3 (f 2 0) (f 2 1) (f 2 2))"





section \<open>Properties\<close>

subsection \<open>Prediction\<close>

lemma predict_m_dt: "predict v w dt (st\<lparr>m_dt := d\<rparr>) = predict v w dt st"
  by (simp add: predict_def)

lemma update_unfold:
  "update lrb v w ls dt st =
     (case correct_all lrb ls (predict v w dt st) of
        Inl e \<Rightarrow> Inl e
      | Inr (MU, COV) \<Rightarrow> Inr (st\<lparr>m_dt := dt, m_mu := MU, m_cov := COV\<rparr>))"
  by (simp add: update_def predict_m_dt)

lemma arc_G:
  assumes "w \<noteq> 0"
  shows "state_jacobian (arc_motion v w dt) (Vec3 x y \<theta>) (G_arc v w dt \<theta>)"
  using assms unfolding state_jacobian_def arc_motion_def G_arc_def
  by (auto intro!: derivative_eq_intros simp: field_simps)

lemma arc_V:
  assumes "w \<noteq> 0"
  shows "control_jacobian (\<lambda>v w. arc_motion v w dt (Vec3 x y \<theta>)) v w (V_arc v w dt \<theta>)"
  using assms unfolding control_jacobian_def arc_motion_def V_arc_def
  by (auto intro!: derivative_eq_intros simp: field_simps)

lemma sum_below_3: "(\<Sum>k<(3::nat). f k) = f 0 + f 1 + (f 2 :: real)"
  by (simp add: numeral_3_eq_3 numeral_2_eq_2)

lemma sum_below_2: "(\<Sum>k<(2::nat). f k) = f 0 + (f 1 :: real)"
  by (simp add: numeral_2_eq_2)

lemma predicted_cov_entries:
  "predicted_cov G V M \<Sigma> =
     mat33_of (\<lambda>i j.
       (\<Sum>k<3. \<Sum>l<3. coeff33 G i k * coeff33 \<Sigma> k l * coeff33 G j l)
       + (\<Sum>k<2. \<Sum>l<2. coeff32 V i k * coeff22 M k l * coeff32 V j l))"
proof -
  obtain g00 g01 g02 g10 g11 g12 g20 g21 g22 where
    g: "G = Mat33 (Vec3 g00 g01 g02) (Vec3 g10 g11 g12) (Vec3 g20 g21 g22)"
    by (metis mat33.exhaust vec3.exhaust)
  obtain c00 c01 c02 c10 c11 c12 c20 c21 c22 where
    c: "\<Sigma> = Mat33 (Vec3 c00 c01 c02) (Vec3 c10 c11 c12) (Vec3 c20 c21 c22)"
    by (metis mat33.exhaust vec3.exhaust)
  obtain v00 v01 v10 v11 v20 v21 where vv: "V = Mat32 (Vec2 v00 v01) (Vec2 v10 v11) (Vec2 v20 v21)"
    by (metis mat32.exhaust vec2.exhaust)
  obtain m00 m01 m10 m11 where m: "M = Mat22 (Vec2 m00 m01) (Vec2 m10 m11)"
    by (metis mat22.exhaust vec2.exhaust)
  show ?thesis
    unfolding predicted_cov_def mat33_of_def sum_below_3 sum_below_2 g c vv m
    by (simp add: algebra_simps)
qed

text \<open>
  C1: for every state and every input with \<open>\<bar>w\<bar> > 1e-4\<close>, the prediction of
  \<^verbatim>\<open>update\<close> yields the circular-arc mean and the covariance
  \<open>G\<Sigma>G\<^sup>T + VMV\<^sup>T\<close>, coefficient by coefficient
  \<open>\<Sum>\<^sub>k\<^sub>l G\<^sub>i\<^sub>k \<Sigma>\<^sub>k\<^sub>l G\<^sub>j\<^sub>l + \<Sum>\<^sub>k\<^sub>l V\<^sub>i\<^sub>k M\<^sub>k\<^sub>l V\<^sub>j\<^sub>l\<close>, with \<open>M\<close> the diagonal matrix of the two noise
  scalars; \<open>G\<close> and \<open>V\<close> are the partial derivatives of the arc motion with respect to
  the state and to the control, taken at the prior mean; and \<^verbatim>\<open>update\<close> runs the
  correction loop from this prediction.
\<close>

theorem update_predict_arc:
  assumes "\<bar>w\<bar> > EPS"
  shows "predict v w dt \<lparr>m_mu = Vec3 x y \<theta>, m_cov = \<Sigma>, m_dt = d\<rparr> =
           (Vec3 (x - (v / w) * sin \<theta> + (v / w) * sin (\<theta> + w * dt))
                 (y + (v / w) * cos \<theta> - (v / w) * cos (\<theta> + w * dt))
                 (\<theta> + w * dt),
            mat33_of (\<lambda>i j.
              (\<Sum>k<3. \<Sum>l<3.
                 coeff33 (G_arc v w dt \<theta>) i k * coeff33 \<Sigma> k l * coeff33 (G_arc v w dt \<theta>) j l)
              + (\<Sum>k<2. \<Sum>l<2.
                   coeff32 (V_arc v w dt \<theta>) i k
                   * coeff22 (Mat22 (Vec2 ((ALPHA1 * \<bar>v\<bar> + ALPHA2 * \<bar>w\<bar>)\<^sup>2) 0)
                                    (Vec2 0 ((ALPHA3 * \<bar>v\<bar> + ALPHA4 * \<bar>w\<bar>)\<^sup>2))) k l
                   * coeff32 (V_arc v w dt \<theta>) j l)))
       \<and> state_jacobian (arc_motion v w dt) (Vec3 x y \<theta>) (G_arc v w dt \<theta>)
       \<and> control_jacobian (\<lambda>v w. arc_motion v w dt (Vec3 x y \<theta>)) v w (V_arc v w dt \<theta>)
       \<and> update lrb v w ls dt \<lparr>m_mu = Vec3 x y \<theta>, m_cov = \<Sigma>, m_dt = d\<rparr> =
           (case correct_all lrb ls (predict v w dt \<lparr>m_mu = Vec3 x y \<theta>, m_cov = \<Sigma>, m_dt = d\<rparr>) of
              Inl e \<Rightarrow> Inl e
            | Inr (MU, COV) \<Rightarrow> Inr \<lparr>m_mu = MU, m_cov = COV, m_dt = dt\<rparr>)"
proof -
  from assms have w0: "w \<noteq> 0"
    by (auto simp add: EPS_def)
  have m: "fst (predict v w dt \<lparr>m_mu = Vec3 x y \<theta>, m_cov = \<Sigma>, m_dt = d\<rparr>) =
           Vec3 (x - (v / w) * sin \<theta> + (v / w) * sin (\<theta> + w * dt))
                (y + (v / w) * cos \<theta> - (v / w) * cos (\<theta> + w * dt))
                (\<theta> + w * dt)"
    using assms by (simp add: predict_def)
  have "snd (predict v w dt \<lparr>m_mu = Vec3 x y \<theta>, m_cov = \<Sigma>, m_dt = d\<rparr>) =
      predicted_cov (G_arc v w dt \<theta>) (V_arc v w dt \<theta>)
        (Mat22 (Vec2 ((ALPHA1 * \<bar>v\<bar> + ALPHA2 * \<bar>w\<bar>)\<^sup>2) 0)
               (Vec2 0 ((ALPHA3 * \<bar>v\<bar> + ALPHA4 * \<bar>w\<bar>)\<^sup>2))) \<Sigma>"
    using assms by (simp add: predict_def motion_noise_def jacobian_G_def jacobian_V_def)
  then have c: "snd (predict v w dt \<lparr>m_mu = Vec3 x y \<theta>, m_cov = \<Sigma>, m_dt = d\<rparr>) =
      mat33_of (\<lambda>i j.
              (\<Sum>k<3. \<Sum>l<3.
                 coeff33 (G_arc v w dt \<theta>) i k * coeff33 \<Sigma> k l * coeff33 (G_arc v w dt \<theta>) j l)
              + (\<Sum>k<2. \<Sum>l<2.
                   coeff32 (V_arc v w dt \<theta>) i k
                   * coeff22 (Mat22 (Vec2 ((ALPHA1 * \<bar>v\<bar> + ALPHA2 * \<bar>w\<bar>)\<^sup>2) 0)
                                    (Vec2 0 ((ALPHA3 * \<bar>v\<bar> + ALPHA4 * \<bar>w\<bar>)\<^sup>2))) k l
                   * coeff32 (V_arc v w dt \<theta>) j l))"
    by (simp only: predicted_cov_entries)
  have p: "predict v w dt \<lparr>m_mu = Vec3 x y \<theta>, m_cov = \<Sigma>, m_dt = d\<rparr> =
      (fst (predict v w dt \<lparr>m_mu = Vec3 x y \<theta>, m_cov = \<Sigma>, m_dt = d\<rparr>),
       snd (predict v w dt \<lparr>m_mu = Vec3 x y \<theta>, m_cov = \<Sigma>, m_dt = d\<rparr>))"
    by simp
  have u: "update lrb v w ls dt \<lparr>m_mu = Vec3 x y \<theta>, m_cov = \<Sigma>, m_dt = d\<rparr> =
           (case correct_all lrb ls (predict v w dt \<lparr>m_mu = Vec3 x y \<theta>, m_cov = \<Sigma>, m_dt = d\<rparr>) of
              Inl e \<Rightarrow> Inl e
            | Inr (MU, COV) \<Rightarrow> Inr \<lparr>m_mu = MU, m_cov = COV, m_dt = dt\<rparr>)"
    by (simp add: update_unfold split: sum.splits prod.splits)
  from p [unfolded m c] u arc_G [OF w0] arc_V [OF w0] show ?thesis
    by blast
qed

theorem update_predict_arc_witness:
  "\<bar>pi\<bar> > EPS
   \<and> fst (predict pi pi 1 \<lparr>m_mu = Vec3 0 0 0, m_cov = identity33, m_dt = 0\<rparr>) = Vec3 0 2 pi
   \<and> coeff33 (snd (predict pi pi 1 \<lparr>m_mu = Vec3 0 0 0, m_cov = identity33, m_dt = 0\<rparr>)) 0 0
       = 5 + (ALPHA3 * pi + ALPHA4 * pi)\<^sup>2
   \<and> coeff33 (snd (predict pi pi 1 \<lparr>m_mu = Vec3 0 0 0, m_cov = identity33, m_dt = 0\<rparr>)) 0 2
       = - 2 - (ALPHA3 * pi + ALPHA4 * pi)\<^sup>2
   \<and> coeff33 (snd (predict pi pi 1 \<lparr>m_mu = Vec3 0 0 0, m_cov = identity33, m_dt = 0\<rparr>)) 2 0
       = - 2 - (ALPHA3 * pi + ALPHA4 * pi)\<^sup>2"
proof -
  have h: "\<bar>pi\<bar> > EPS"
    using pi_ge_two by (simp add: EPS_def)
  have g: "G_arc pi pi 1 0 = Mat33 (Vec3 1 0 (- 2)) (Vec3 0 1 0) (Vec3 0 0 1)"
    by (simp add: G_arc_def)
  have v: "V_arc pi pi 1 0 = Mat32 (Vec2 0 (- 1)) (Vec2 (2 / pi) (- (2 / pi))) (Vec2 0 1)"
    by (simp add: V_arc_def)
  from update_predict_arc [OF h, where v = pi and dt = 1 and \<theta> = 0 and x = 0 and y = 0
      and \<Sigma> = identity33 and d = 0]
  have "predict pi pi 1 \<lparr>m_mu = Vec3 0 0 0, m_cov = identity33, m_dt = 0\<rparr> =
      (Vec3 0 2 pi,
       mat33_of (\<lambda>i j.
              (\<Sum>k<3. \<Sum>l<3.
                 coeff33 (G_arc pi pi 1 0) i k * coeff33 identity33 k l * coeff33 (G_arc pi pi 1 0) j l)
              + (\<Sum>k<2. \<Sum>l<2.
                   coeff32 (V_arc pi pi 1 0) i k
                   * coeff22 (Mat22 (Vec2 ((ALPHA1 * \<bar>pi\<bar> + ALPHA2 * \<bar>pi\<bar>)\<^sup>2) 0)
                                    (Vec2 0 ((ALPHA3 * \<bar>pi\<bar> + ALPHA4 * \<bar>pi\<bar>)\<^sup>2))) k l
                   * coeff32 (V_arc pi pi 1 0) j l)))"
    by simp
  then show ?thesis
    using h unfolding g v sum_below_3 sum_below_2
    by (simp add: mat33_of_def identity33_def)
qed


















lemma trace_pure_rotation:
  "snd (predict 0 ROBOT_YAW_VEL 1 \<lparr>m_mu = Vec3 x y \<theta>, m_cov = \<Sigma>, m_dt = d\<rparr>) =
     add33 \<Sigma> (Mat33 (Vec3 0 0 0) (Vec3 0 0 0) (Vec3 0 0 ((ALPHA4 * ROBOT_YAW_VEL)\<^sup>2)))"
proof -
  obtain a00 a01 a02 a10 a11 a12 a20 a21 a22 where
    s: "\<Sigma> = Mat33 (Vec3 a00 a01 a02) (Vec3 a10 a11 a12) (Vec3 a20 a21 a22)"
    by (metis mat33.exhaust vec3.exhaust)
  have w: "\<bar>ROBOT_YAW_VEL\<bar> > EPS"
    using pi_ge_two by (simp add: ROBOT_YAW_VEL_def EPS_def)
  have wpos: "0 \<le> ROBOT_YAW_VEL"
    by (simp add: ROBOT_YAW_VEL_def)
  show ?thesis
    using w wpos
    by (simp add: predict_def predicted_cov_def jacobian_G_def jacobian_V_def G_arc_def G_line_def V_arc_def V_line_def motion_noise_def s
        ALPHA1_def ALPHA2_def ALPHA3_def power2_eq_square)
qed

lemma mean_pure_rotation:
  "fst (predict 0 ROBOT_YAW_VEL 1 \<lparr>m_mu = Vec3 x y \<theta>, m_cov = \<Sigma>, m_dt = d\<rparr>) =
     Vec3 x y (\<theta> + ROBOT_YAW_VEL * 1)"
proof -
  have w: "\<bar>ROBOT_YAW_VEL\<bar> > EPS"
    using pi_ge_two by (simp add: ROBOT_YAW_VEL_def EPS_def)
  then show ?thesis
    by (simp add: predict_def)
qed

lemma trace33_add33: "trace33 (add33 A B) = trace33 A + trace33 B"
proof -
  obtain a00 a01 a02 a10 a11 a12 a20 a21 a22 where
    a: "A = Mat33 (Vec3 a00 a01 a02) (Vec3 a10 a11 a12) (Vec3 a20 a21 a22)"
    by (metis mat33.exhaust vec3.exhaust)
  obtain b00 b01 b02 b10 b11 b12 b20 b21 b22 where
    b: "B = Mat33 (Vec3 b00 b01 b02) (Vec3 b10 b11 b12) (Vec3 b20 b21 b22)"
    by (metis mat33.exhaust vec3.exhaust)
  show ?thesis by (simp add: a b)
qed

text \<open>
  A pure rotation with no landmarks stores the predicted heading as it is, leaves \<open>x\<close>
  and \<open>y\<close> as they were, and adds \<open>(ALPHA4 w)\<^sup>2\<close> to the trace of the covariance.
\<close>

lemma pure_rotation_update:
  "\<exists>st'. update lrb 0 ROBOT_YAW_VEL [] 1 st = Inr st'
     \<and> yaw st' = yaw st + ROBOT_YAW_VEL * 1
     \<and> (\<exists>k::int. yaw st' = yaw st + ROBOT_YAW_VEL * 1 + 2 * pi * real_of_int k)
     \<and> pose_x st' = pose_x st
     \<and> pose_y st' = pose_y st
     \<and> trace33 (m_cov st') = trace33 (m_cov st) + (ALPHA4 * ROBOT_YAW_VEL)\<^sup>2
     \<and> trace33 (m_cov st) \<le> trace33 (m_cov st')"
proof -
  obtain MU \<Sigma> d where st: "st = \<lparr>m_mu = MU, m_cov = \<Sigma>, m_dt = d\<rparr>"
    by (cases st) simp
  obtain x y \<theta> where mu: "MU = Vec3 x y \<theta>"
    by (cases MU) simp
  define COV where
    "COV = add33 \<Sigma> (Mat33 (Vec3 0 0 0) (Vec3 0 0 0) (Vec3 0 0 ((ALPHA4 * ROBOT_YAW_VEL)\<^sup>2)))"
  define st' where "st' = \<lparr>m_mu = Vec3 x y (\<theta> + ROBOT_YAW_VEL * 1), m_cov = COV, m_dt = 1\<rparr>"
  have "predict 0 ROBOT_YAW_VEL 1 st = (Vec3 x y (\<theta> + ROBOT_YAW_VEL * 1), COV)"
    using mean_pure_rotation [of x y \<theta> \<Sigma> d] trace_pure_rotation [of x y \<theta> \<Sigma> d]
    unfolding st mu COV_def by (simp add: prod_eq_iff)
  then have u: "update lrb 0 ROBOT_YAW_VEL [] 1 st = Inr st'"
    by (simp add: update_unfold st'_def st)
  have tr: "trace33 (m_cov st') = trace33 (m_cov st) + (ALPHA4 * ROBOT_YAW_VEL)\<^sup>2"
    by (simp add: st'_def COV_def st trace33_add33)
  then have le: "trace33 (m_cov st) \<le> trace33 (m_cov st')"
    by simp
  have y: "yaw st' = yaw st + ROBOT_YAW_VEL * 1"
    by (simp add: st'_def st mu)
  then have "yaw st' = yaw st + ROBOT_YAW_VEL * 1 + 2 * pi * real_of_int 0"
    by simp
  then have cong: "\<exists>k::int. yaw st' = yaw st + ROBOT_YAW_VEL * 1 + 2 * pi * real_of_int k"
    by blast
  have xy: "pose_x st' = pose_x st \<and> pose_y st' = pose_y st"
    by (simp add: st'_def st mu)
  from u y cong xy tr le show ?thesis
    by blast
qed

text \<open>
  C9 at a failing input: with \<open>v = 0\<close>, \<open>w = ROBOT_YAW_VEL\<close>, \<open>dt = 1\<close> and no landmarks,
  from the heading \<open>\<pi>\<close> the stored \<open>x\<close> and \<open>y\<close> are unchanged and the trace of the
  covariance does not decrease, but the stored heading is \<open>\<pi> + \<pi>/3\<close>: it has advanced by
  \<open>w dt\<close> without the wrap into \<open>(-\<pi>, \<pi>]\<close>, which would give \<open>\<pi> + \<pi>/3 - 2\<pi>\<close>.
\<close>

theorem update_pure_rotation_not_wrapped:
  "- pi < yaw \<lparr>m_mu = Vec3 0 0 pi, m_cov = identity33, m_dt = 0\<rparr>
   \<and> yaw \<lparr>m_mu = Vec3 0 0 pi, m_cov = identity33, m_dt = 0\<rparr> \<le> pi
   \<and> constrain_angle (yaw \<lparr>m_mu = Vec3 0 0 pi, m_cov = identity33, m_dt = 0\<rparr> + ROBOT_YAW_VEL * 1)
       = pi + ROBOT_YAW_VEL * 1 - 2 * pi
   \<and> - pi < pi + ROBOT_YAW_VEL * 1 - 2 * pi
   \<and> pi + ROBOT_YAW_VEL * 1 - 2 * pi \<le> pi
   \<and> (case update landmark_range_bearing 0 ROBOT_YAW_VEL [] 1
              \<lparr>m_mu = Vec3 0 0 pi, m_cov = identity33, m_dt = 0\<rparr> of
         Inl e \<Rightarrow> False
       | Inr st' \<Rightarrow>
           yaw st' = pi + ROBOT_YAW_VEL * 1
         \<and> yaw st' \<noteq> pi + ROBOT_YAW_VEL * 1 - 2 * pi
         \<and> \<not> yaw st' \<le> pi
         \<and> pose_x st' = 0
         \<and> pose_y st' = 0
         \<and> trace33 identity33 \<le> trace33 (m_cov st'))"
proof -
  define st where "st = \<lparr>m_mu = Vec3 0 0 pi, m_cov = identity33, m_dt = 0\<rparr>"
  have w: "0 < ROBOT_YAW_VEL" and w2: "ROBOT_YAW_VEL < 2 * pi"
    by (simp_all add: ROBOT_YAW_VEL_def)
  have y: "yaw st = pi"
    by (simp add: st_def)
  have "\<not> pi + ROBOT_YAW_VEL * 1 < - pi"
    using w pi_gt_zero by linarith
  then have c: "constrain_angle (pi + ROBOT_YAW_VEL * 1) = pi + ROBOT_YAW_VEL * 1 - 2 * pi"
    using w by (simp add: constrain_angle_def)
  have wrap: "constrain_angle (yaw st + ROBOT_YAW_VEL * 1) = pi + ROBOT_YAW_VEL * 1 - 2 * pi"
    unfolding y by (rule c)
  have lo: "- pi < pi + ROBOT_YAW_VEL * 1 - 2 * pi"
    using w by simp
  have hi: "pi + ROBOT_YAW_VEL * 1 - 2 * pi \<le> pi"
    using w2 by simp
  have x0: "pose_x st = 0" and y0: "pose_y st = 0" and c0: "m_cov st = identity33"
    by (simp_all add: st_def)
  from pure_rotation_update [of landmark_range_bearing st]
  obtain st' where u: "update landmark_range_bearing 0 ROBOT_YAW_VEL [] 1 st = Inr st'"
    and h: "yaw st' = yaw st + ROBOT_YAW_VEL * 1"
    and px: "pose_x st' = pose_x st" and py: "pose_y st' = pose_y st"
    and tr: "trace33 (m_cov st) \<le> trace33 (m_cov st')"
    by blast
  have h': "yaw st' = pi + ROBOT_YAW_VEL * 1"
    using h unfolding y .
  have ne: "yaw st' \<noteq> pi + ROBOT_YAW_VEL * 1 - 2 * pi"
    unfolding h' using pi_gt_zero by simp
  have above: "\<not> yaw st' \<le> pi"
    unfolding h' using w by simp
  have px': "pose_x st' = 0"
    using px unfolding x0 .
  have py': "pose_y st' = 0"
    using py unfolding y0 .
  have tr': "trace33 identity33 \<le> trace33 (m_cov st')"
    using tr unfolding c0 .
  have r: "(case update landmark_range_bearing 0 ROBOT_YAW_VEL [] 1 st of
         Inl e \<Rightarrow> False
       | Inr st' \<Rightarrow>
           yaw st' = pi + ROBOT_YAW_VEL * 1
         \<and> yaw st' \<noteq> pi + ROBOT_YAW_VEL * 1 - 2 * pi
         \<and> \<not> yaw st' \<le> pi
         \<and> pose_x st' = 0
         \<and> pose_y st' = 0
         \<and> trace33 identity33 \<le> trace33 (m_cov st'))"
    unfolding u sum.case using h' ne above px' py' tr' by blast
  have b: "- pi < yaw st \<and> yaw st \<le> pi"
    unfolding y by simp
  from b wrap lo hi r show ?thesis
    unfolding st_def by blast
qed

subsection \<open>Correction\<close>

lemma inverse22_right:
  assumes "determinant22 S \<noteq> 0"
  shows "inverse22 S = Inr (adjugate22 S (1 / determinant22 S))
    \<and> mul22_22 S (adjugate22 S (1 / determinant22 S)) = identity22
    \<and> mul22_22 (adjugate22 S (1 / determinant22 S)) S = identity22"
proof -
  obtain a b c d where s: "S = Mat22 (Vec2 a b) (Vec2 c d)"
    by (metis mat22.exhaust vec2.exhaust)
  define k where "k = 1 / determinant22 S"
  from assms have k: "(a * d - b * c) * k = 1"
    by (simp add: s k_def)
  have r00: "a * (d * k) + b * (- c * k) = (a * d - b * c) * k"
    and r01: "a * (- b * k) + b * (a * k) = 0"
    and r10: "c * (d * k) + d * (- c * k) = 0"
    and r11: "c * (- b * k) + d * (a * k) = (a * d - b * c) * k"
    by (simp_all add: algebra_simps)
  have l00: "d * k * a + - b * k * c = (a * d - b * c) * k"
    and l01: "d * k * b + - b * k * d = 0"
    and l10: "- c * k * a + a * k * c = 0"
    and l11: "- c * k * b + a * k * d = (a * d - b * c) * k"
    by (simp_all add: algebra_simps)
  have "mul22_22 S (adjugate22 S k) = identity22"
    unfolding s identity22_def using r00 r01 r10 r11 k by simp
  moreover have "mul22_22 (adjugate22 S k) S = identity22"
    unfolding s identity22_def using l00 l01 l10 l11 k by simp
  ultimately show ?thesis
    using assms by (simp add: inverse22_def k_def)
qed



lemma fuse_formula:
  assumes e: "lrb l x y \<theta> = (range_hat, bearing_hat)"
    and r: "range_hat \<noteq> 0"
    and d: "determinant22 (innovation_cov (jacobian_H l (Vec3 x y \<theta>) range_hat) COV
              (measurement_noise l)) \<noteq> 0"
  shows "fuse lrb l (Vec3 x y \<theta>, COV) =
    (let H = jacobian_H l (Vec3 x y \<theta>) range_hat;
         S = innovation_cov H COV (measurement_noise l);
         K = mul32_22 (mul33_32 COV (transpose23 H)) (adjugate22 S (1 / determinant22 S))
     in Inr (wrap_heading
               (add3 (Vec3 x y \<theta>)
                  (mul32_vec2 K (Vec2 (l_range l - range_hat) (l_bearing l - bearing_hat)))),
             mul33_33 (sub33 identity33 (mul32_23 K H)) COV))"
  using e r d inverse22_right [OF d]
  by (simp add: fuse_def Let_def del: jacobian_H.simps)

lemma correct_all_append:
  "correct_all lrb (xs @ ys) b =
     (case correct_all lrb xs b of Inl e \<Rightarrow> Inl e | Inr b' \<Rightarrow> correct_all lrb ys b')"
  by (induction xs arbitrary: b) (simp_all split: sum.splits)



text \<open>
  C6: an observation with \<open>\<bar>range\<bar> < 1e-4\<close> is skipped without error: the mean and the
  covariance of the prediction are kept, and the other observations of the list are
  processed as if it were absent.
\<close>

theorem correct_skips_small_range:
  assumes "\<bar>l_range l\<bar> < EPS"
  shows "correct lrb l belief = Inr belief
    \<and> correct_all lrb (ls1 @ l # ls2) belief = correct_all lrb (ls1 @ ls2) belief
    \<and> update lrb v w (ls1 @ l # ls2) dt st = update lrb v w (ls1 @ ls2) dt st
    \<and> update lrb v w [l] dt st =
        Inr \<lparr>m_mu = fst (predict v w dt st), m_cov = snd (predict v w dt st), m_dt = dt\<rparr>"
proof -
  from assms have c: "correct lrb l b = Inr b" for b
    by (simp add: correct_def)
  have ca: "correct_all lrb (ls1 @ l # ls2) b = correct_all lrb (ls1 @ ls2) b" for b
  proof -
    have "correct_all lrb (ls1 @ l # ls2) b =
        (case correct_all lrb ls1 b of Inl e \<Rightarrow> Inl e | Inr b' \<Rightarrow> correct_all lrb (l # ls2) b')"
      by (rule correct_all_append)
    also have "\<dots> =
        (case correct_all lrb ls1 b of Inl e \<Rightarrow> Inl e | Inr b' \<Rightarrow> correct_all lrb ls2 b')"
      by (cases "correct_all lrb ls1 b") (simp_all add: c)
    also have "\<dots> = correct_all lrb (ls1 @ ls2) b"
      by (rule correct_all_append [symmetric])
    finally show ?thesis .
  qed
  have u: "update lrb v w (ls1 @ l # ls2) dt st = update lrb v w (ls1 @ ls2) dt st"
    by (simp add: update_def ca)
  have one: "update lrb v w [l] dt st =
      Inr \<lparr>m_mu = fst (predict v w dt st), m_cov = snd (predict v w dt st), m_dt = dt\<rparr>"
    by (cases st) (simp add: update_unfold c split: prod.splits)
  from c ca u one show ?thesis
    by blast
qed

theorem correct_skips_small_range_witness:
  "\<bar>l_range \<lparr>l_x = 1, l_y = 0, l_range = 0, l_bearing = 0\<rparr>\<bar> < EPS
   \<and> correct landmark_range_bearing \<lparr>l_x = 1, l_y = 0, l_range = 0, l_bearing = 0\<rparr>
         (Vec3 0 0 0, identity33) = Inr (Vec3 0 0 0, identity33)
   \<and> update landmark_range_bearing 100 0 [\<lparr>l_x = 1, l_y = 0, l_range = 0, l_bearing = 0\<rparr>] (1 / 2)
         \<lparr>m_mu = Vec3 0 0 0, m_cov = identity33, m_dt = 0\<rparr>
       = update landmark_range_bearing 100 0 [] (1 / 2)
           \<lparr>m_mu = Vec3 0 0 0, m_cov = identity33, m_dt = 0\<rparr>"
proof -
  have h: "\<bar>l_range \<lparr>l_x = 1, l_y = 0, l_range = 0, l_bearing = 0\<rparr>\<bar> < EPS"
    by (simp add: EPS_def)
  from correct_skips_small_range [OF h, of landmark_range_bearing "(Vec3 0 0 0, identity33)" "[]" "[]"
      100 0 "1 / 2" "\<lparr>m_mu = Vec3 0 0 0, m_cov = identity33, m_dt = 0\<rparr>"] h
  show ?thesis by simp
qed

text \<open>
  C10: an observation with a negative range below \<open>-1e-4\<close> passes the test on the
  absolute value and is fused like a valid one; its measurement noise is that of the
  positive range of the same magnitude.
\<close>

theorem correct_fuses_negative_range:
  assumes "l_range l < - EPS"
  shows "\<bar>l_range l\<bar> > EPS
    \<and> correct lrb l belief = fuse lrb l belief
    \<and> measurement_noise l = measurement_noise (l\<lparr>l_range := \<bar>l_range l\<bar>\<rparr>)
    \<and> correct_all lrb (l # ls) belief =
        (case fuse lrb l belief of Inl e \<Rightarrow> Inl e | Inr belief' \<Rightarrow> correct_all lrb ls belief')"
proof -
  from assms have a: "\<bar>l_range l\<bar> > EPS"
    by (simp add: EPS_def)
  then have c: "correct lrb l belief = fuse lrb l belief"
    by (simp add: correct_def)
  have q: "measurement_noise l = measurement_noise (l\<lparr>l_range := \<bar>l_range l\<bar>\<rparr>)"
    by (simp add: measurement_noise_def power_mult_distrib)
  from a c q show ?thesis
    by simp
qed

theorem correct_fuses_negative_range_witness:
  "l_range \<lparr>l_x = 1, l_y = 0, l_range = - 1, l_bearing = 0\<rparr> < - EPS
   \<and> (\<exists>COV'. correct landmark_range_bearing \<lparr>l_x = 1, l_y = 0, l_range = - 1, l_bearing = 0\<rparr>
                 (Vec3 0 0 0, identity33) = Inr (Vec3 (200 / 101) 0 0, COV'))"
proof -
  define l where "l = \<lparr>l_x = 1, l_y = 0, l_range = - 1, l_bearing = 0\<rparr>"
  have h: "l_range l < - EPS"
    by (simp add: l_def EPS_def)
  have e: "landmark_range_bearing l 0 0 0 = (1, 0)"
    by (simp add: l_def landmark_range_bearing_def atan2_def)
  have s: "innovation_cov (jacobian_H l (Vec3 0 0 0) 1) identity33 (measurement_noise l) =
      Mat22 (Vec2 (101 / 100) 0) (Vec2 0 (2 + DETECTION_ANGLE_SIGMA\<^sup>2))"
    by (simp add: l_def innovation_cov_def identity33_def measurement_noise_def
        DETECTION_RANGE_ALPHA_def power2_eq_square)
  have pos: "2 + DETECTION_ANGLE_SIGMA\<^sup>2 > 0"
    by (simp add: add_pos_nonneg)
  then have adj: "inverse22 (Mat22 (Vec2 (101 / 100) 0) (Vec2 0 (2 + DETECTION_ANGLE_SIGMA\<^sup>2))) =
      Inr (Mat22 (Vec2 (100 / 101) 0) (Vec2 0 (1 / (2 + DETECTION_ANGLE_SIGMA\<^sup>2))))"
    by (auto simp add: inverse22_def field_simps)
  have "\<exists>COV'. fuse landmark_range_bearing l (Vec3 0 0 0, identity33) =
      Inr (Vec3 (200 / 101) 0 0, COV')"
    unfolding fuse_def Let_def
    apply (simp only: e prod.case vec3.case)
    apply (simp only: s adj)
    apply (simp add: l_def identity33_def constrain_angle_def)
    done
  with correct_fuses_negative_range [OF h, of landmark_range_bearing "(Vec3 0 0 0, identity33)" "[]"] h
  show ?thesis
    unfolding l_def by simp
qed

text \<open>
  The innovation covariance of a fused observation is not singular when the covariance
  is positive semidefinite: for an observation that passes the range test \<open>Q\<close> is
  positive definite, so \<open>S = H\<Sigma>H\<^sup>T + Q\<close> is, and its determinant is not zero. The
  prediction keeps the covariance positive semidefinite. (C5 is about a singular \<open>S\<close>;
  over the reals no covariance that the filter computes from its initial zero
  covariance gives one.)
\<close>

lemma innovation_quadratic_form:
  "dot2 u (mul22_vec2 (innovation_cov H COV Q) u) =
     dot3 (row2_mat23 u H) (mul33_vec3 COV (row2_mat23 u H)) + dot2 u (mul22_vec2 Q u)"
proof -
  obtain u0 u1 where u: "u = Vec2 u0 u1"
    by (cases u) simp
  obtain h00 h01 h02 h10 h11 h12 where h: "H = Mat23 (Vec3 h00 h01 h02) (Vec3 h10 h11 h12)"
    by (metis mat23.exhaust vec3.exhaust)
  obtain c00 c01 c02 c10 c11 c12 c20 c21 c22 where
    c: "COV = Mat33 (Vec3 c00 c01 c02) (Vec3 c10 c11 c12) (Vec3 c20 c21 c22)"
    by (metis mat33.exhaust vec3.exhaust)
  obtain q00 q01 q10 q11 where q: "Q = Mat22 (Vec2 q00 q01) (Vec2 q10 q11)"
    by (metis mat22.exhaust vec2.exhaust)
  show ?thesis
    by (simp add: u h c q innovation_cov_def algebra_simps)
qed

lemma positive_definite_determinant:
  assumes pd: "\<And>u. u \<noteq> Vec2 0 0 \<Longrightarrow> 0 < dot2 u (mul22_vec2 S u)"
  shows "determinant22 S \<noteq> 0"
proof
  assume det: "determinant22 S = 0"
  obtain a b c d where s: "S = Mat22 (Vec2 a b) (Vec2 c d)"
    by (metis mat22.exhaust vec2.exhaust)
  from det have eq: "a * d = b * c"
    by (simp add: s)
  have "dot2 (Vec2 d (- c)) (mul22_vec2 S (Vec2 d (- c))) = d * (a * d - b * c)"
    by (simp add: s algebra_simps)
  with eq pd [of "Vec2 d (- c)"] have cd: "c = 0 \<and> d = 0"
    by auto
  have "dot2 (Vec2 (- b) a) (mul22_vec2 S (Vec2 (- b) a)) = a * (a * d - b * c)"
    by (simp add: s algebra_simps)
  with eq pd [of "Vec2 (- b) a"] have ab: "a = 0 \<and> b = 0"
    by auto
  from pd [of "Vec2 1 0"] show False
    by (simp add: s ab cd)
qed

lemma measurement_noise_positive:
  assumes o: "\<bar>l_range l\<bar> > EPS" and u: "u \<noteq> Vec2 0 0"
  shows "0 < dot2 u (mul22_vec2 (measurement_noise l) u)"
proof -
  obtain u0 u1 where uv: "u = Vec2 u0 u1"
    by (cases u) simp
  from o have "l_range l \<noteq> 0"
    by (auto simp add: EPS_def)
  then have q0: "0 < (l_range l * DETECTION_RANGE_ALPHA)\<^sup>2"
    by (simp add: DETECTION_RANGE_ALPHA_def)
  have q1: "0 < DETECTION_ANGLE_SIGMA\<^sup>2"
    by (simp add: DETECTION_ANGLE_SIGMA_def)
  have form: "dot2 u (mul22_vec2 (measurement_noise l) u) =
      (l_range l * DETECTION_RANGE_ALPHA)\<^sup>2 * u0\<^sup>2 + DETECTION_ANGLE_SIGMA\<^sup>2 * u1\<^sup>2"
    by (simp add: uv measurement_noise_def power2_eq_square algebra_simps)
  from u uv have "u0 \<noteq> 0 \<or> u1 \<noteq> 0"
    by simp
  then show ?thesis
  proof
    assume "u0 \<noteq> 0"
    then have "0 < (l_range l * DETECTION_RANGE_ALPHA)\<^sup>2 * u0\<^sup>2"
      using q0 by simp
    moreover have "0 \<le> DETECTION_ANGLE_SIGMA\<^sup>2 * u1\<^sup>2"
      by simp
    ultimately show ?thesis
      unfolding form by (rule add_pos_nonneg)
  next
    assume "u1 \<noteq> 0"
    then have "0 < DETECTION_ANGLE_SIGMA\<^sup>2 * u1\<^sup>2"
      using q1 by simp
    moreover have "0 \<le> (l_range l * DETECTION_RANGE_ALPHA)\<^sup>2 * u0\<^sup>2"
      by simp
    ultimately show ?thesis
      unfolding form by (rule add_nonneg_pos [rotated])
  qed
qed

lemma innovation_nonsingular:
  assumes psd: "psd33 COV" and o: "\<bar>l_range l\<bar> > EPS"
  shows "determinant22 (innovation_cov H COV (measurement_noise l)) \<noteq> 0"
proof (rule positive_definite_determinant)
  fix u :: vec2
  assume u: "u \<noteq> Vec2 0 0"
  from psd have "0 \<le> dot3 (row2_mat23 u H) (mul33_vec3 COV (row2_mat23 u H))"
    by (simp add: psd33_def)
  moreover from o u have "0 < dot2 u (mul22_vec2 (measurement_noise l) u)"
    by (rule measurement_noise_positive)
  ultimately show "0 < dot2 u (mul22_vec2 (innovation_cov H COV (measurement_noise l)) u)"
    unfolding innovation_quadratic_form by (rule add_nonneg_pos)
qed

lemma predicted_quadratic_form:
  "dot3 z (mul33_vec3 (predicted_cov G V (motion_noise v w) \<Sigma>) z) =
     dot3 (row3_mat33 z G) (mul33_vec3 \<Sigma> (row3_mat33 z G))
     + ((ALPHA1 * \<bar>v\<bar> + ALPHA2 * \<bar>w\<bar>)\<^sup>2 * (v2_0 (row3_mat32 z V))\<^sup>2
        + (ALPHA3 * \<bar>v\<bar> + ALPHA4 * \<bar>w\<bar>)\<^sup>2 * (v2_1 (row3_mat32 z V))\<^sup>2)"
proof -
  obtain z0 z1 z2 where z: "z = Vec3 z0 z1 z2"
    by (cases z) simp
  obtain g00 g01 g02 g10 g11 g12 g20 g21 g22 where
    g: "G = Mat33 (Vec3 g00 g01 g02) (Vec3 g10 g11 g12) (Vec3 g20 g21 g22)"
    by (metis mat33.exhaust vec3.exhaust)
  obtain c00 c01 c02 c10 c11 c12 c20 c21 c22 where
    c: "\<Sigma> = Mat33 (Vec3 c00 c01 c02) (Vec3 c10 c11 c12) (Vec3 c20 c21 c22)"
    by (metis mat33.exhaust vec3.exhaust)
  obtain v00 v01 v10 v11 v20 v21 where vv: "V = Mat32 (Vec2 v00 v01) (Vec2 v10 v11) (Vec2 v20 v21)"
    by (metis mat32.exhaust vec2.exhaust)
  define m0 where "m0 = (ALPHA1 * \<bar>v\<bar> + ALPHA2 * \<bar>w\<bar>)\<^sup>2"
  define m1 where "m1 = (ALPHA3 * \<bar>v\<bar> + ALPHA4 * \<bar>w\<bar>)\<^sup>2"
  have m: "motion_noise v w = Mat22 (Vec2 m0 0) (Vec2 0 m1)"
    by (simp add: motion_noise_def m0_def m1_def)
  show ?thesis
    unfolding m m0_def [symmetric] m1_def [symmetric]
    by (simp add: z g c vv predicted_cov_def power2_eq_square algebra_simps)
qed

lemma predict_psd:
  assumes "psd33 (m_cov st)"
  shows "psd33 (snd (predict v w dt st))"
  using assms unfolding psd33_def predict_def Let_def snd_conv predicted_quadratic_form
  by (simp add: add_nonneg_nonneg)

text \<open>
  The correction keeps the covariance symmetric and positive semidefinite as well:
  with \<open>K = \<Sigma>H\<^sup>TS\<^sup>-\<^sup>1\<close> and \<open>y = H\<Sigma>z\<close>, the quadratic form of \<open>(I - KH)\<Sigma>\<close> at \<open>z\<close> is
  that of \<open>\<Sigma>\<close> at \<open>z - H\<^sup>TS\<^sup>-\<^sup>1y\<close> plus that of \<open>Q\<close> at \<open>S\<^sup>-\<^sup>1y\<close>. So from the initial zero
  covariance every call of \<^verbatim>\<open>update\<close> whose expected ranges are not zero returns a
  state, and no fused observation has a singular \<open>S\<close>.
\<close>

lemma corrected_quadratic_form:
  "dot3 z (mul33_vec3 (mul33_33 (sub33 identity33 (mul32_23 K H)) \<Sigma>) z) =
     dot3 z (mul33_vec3 \<Sigma> z) - dot3 z (mul32_vec2 K (mul23_vec3 H (mul33_vec3 \<Sigma> z)))"
proof -
  obtain z0 z1 z2 where z: "z = Vec3 z0 z1 z2"
    by (cases z) simp
  obtain k00 k01 k10 k11 k20 k21 where k: "K = Mat32 (Vec2 k00 k01) (Vec2 k10 k11) (Vec2 k20 k21)"
    by (metis mat32.exhaust vec2.exhaust)
  obtain h00 h01 h02 h10 h11 h12 where h: "H = Mat23 (Vec3 h00 h01 h02) (Vec3 h10 h11 h12)"
    by (metis mat23.exhaust vec3.exhaust)
  obtain c00 c01 c02 c10 c11 c12 c20 c21 c22 where
    c: "\<Sigma> = Mat33 (Vec3 c00 c01 c02) (Vec3 c10 c11 c12) (Vec3 c20 c21 c22)"
    by (metis mat33.exhaust vec3.exhaust)
  show ?thesis
    by (simp add: z k h c identity33_def algebra_simps)
qed

lemma mul32_vec2_assoc: "mul32_vec2 (mul32_22 A B) u = mul32_vec2 A (mul22_vec2 B u)"
proof -
  obtain a00 a01 a10 a11 a20 a21 where a: "A = Mat32 (Vec2 a00 a01) (Vec2 a10 a11) (Vec2 a20 a21)"
    by (metis mat32.exhaust vec2.exhaust)
  obtain b00 b01 b10 b11 where b: "B = Mat22 (Vec2 b00 b01) (Vec2 b10 b11)"
    by (metis mat22.exhaust vec2.exhaust)
  obtain u0 u1 where u: "u = Vec2 u0 u1"
    by (cases u) simp
  show ?thesis
    by (simp add: a b u algebra_simps)
qed

lemma mul22_vec2_assoc: "mul22_vec2 (mul22_22 A B) u = mul22_vec2 A (mul22_vec2 B u)"
proof -
  obtain a00 a01 a10 a11 where a: "A = Mat22 (Vec2 a00 a01) (Vec2 a10 a11)"
    by (metis mat22.exhaust vec2.exhaust)
  obtain b00 b01 b10 b11 where b: "B = Mat22 (Vec2 b00 b01) (Vec2 b10 b11)"
    by (metis mat22.exhaust vec2.exhaust)
  obtain u0 u1 where u: "u = Vec2 u0 u1"
    by (cases u) simp
  show ?thesis
    by (simp add: a b u algebra_simps)
qed

lemma mul22_vec2_identity: "mul22_vec2 identity22 u = u"
  by (cases u) (simp add: identity22_def)

lemma gain_pairing:
  assumes "symmetric33 \<Sigma>"
  shows "dot3 z (mul32_vec2 (mul33_32 \<Sigma> (transpose23 H)) y) =
    dot2 y (mul23_vec3 H (mul33_vec3 \<Sigma> z))"
proof -
  obtain z0 z1 z2 where z: "z = Vec3 z0 z1 z2"
    by (cases z) simp
  obtain y0 y1 where y: "y = Vec2 y0 y1"
    by (cases y) simp
  obtain h00 h01 h02 h10 h11 h12 where h: "H = Mat23 (Vec3 h00 h01 h02) (Vec3 h10 h11 h12)"
    by (metis mat23.exhaust vec3.exhaust)
  obtain c00 c01 c02 c10 c11 c12 c20 c21 c22 where
    c: "\<Sigma> = Mat33 (Vec3 c00 c01 c02) (Vec3 c10 c11 c12) (Vec3 c20 c21 c22)"
    by (metis mat33.exhaust vec3.exhaust)
  from assms have s: "c10 = c01" "c20 = c02" "c21 = c12"
    by (simp_all add: c)
  show ?thesis
    by (simp add: z y h c s algebra_simps)
qed

lemma completed_square:
  assumes "symmetric33 \<Sigma>"
  shows "dot3 (sub3 z (row2_mat23 y H)) (mul33_vec3 \<Sigma> (sub3 z (row2_mat23 y H))) =
    dot3 z (mul33_vec3 \<Sigma> z) - 2 * dot2 y (mul23_vec3 H (mul33_vec3 \<Sigma> z))
    + dot3 (row2_mat23 y H) (mul33_vec3 \<Sigma> (row2_mat23 y H))"
proof -
  obtain z0 z1 z2 where z: "z = Vec3 z0 z1 z2"
    by (cases z) simp
  obtain y0 y1 where y: "y = Vec2 y0 y1"
    by (cases y) simp
  obtain h00 h01 h02 h10 h11 h12 where h: "H = Mat23 (Vec3 h00 h01 h02) (Vec3 h10 h11 h12)"
    by (metis mat23.exhaust vec3.exhaust)
  obtain c00 c01 c02 c10 c11 c12 c20 c21 c22 where
    c: "\<Sigma> = Mat33 (Vec3 c00 c01 c02) (Vec3 c10 c11 c12) (Vec3 c20 c21 c22)"
    by (metis mat33.exhaust vec3.exhaust)
  from assms have s: "c10 = c01" "c20 = c02" "c21 = c12"
    by (simp_all add: c)
  show ?thesis
    by (simp add: z y h c s algebra_simps)
qed

lemma diagonal_noise_nonneg:
  assumes "0 \<le> q0" "0 \<le> q1"
  shows "0 \<le> dot2 y (mul22_vec2 (Mat22 (Vec2 q0 0) (Vec2 0 q1)) y)"
proof (cases y)
  case (Vec2 y0 y1)
  have "0 \<le> q0 * (y0 * y0) + q1 * (y1 * y1)"
    using assms by (intro add_nonneg_nonneg mult_nonneg_nonneg zero_le_square)
  then show ?thesis
    by (simp add: Vec2 algebra_simps)
qed

lemma correction_psd:
  assumes sym: "symmetric33 \<Sigma>" and psd: "psd33 \<Sigma>"
    and q0: "0 \<le> q0" and q1: "0 \<le> q1"
    and S: "S = innovation_cov H \<Sigma> (Mat22 (Vec2 q0 0) (Vec2 0 q1))"
    and inv: "mul22_22 S Sinv = identity22"
    and K: "K = mul32_22 (mul33_32 \<Sigma> (transpose23 H)) Sinv"
  shows "psd33 (mul33_33 (sub33 identity33 (mul32_23 K H)) \<Sigma>)"
  unfolding psd33_def
proof
  fix z :: vec3
  define u where "u = mul23_vec3 H (mul33_vec3 \<Sigma> z)"
  define y where "y = mul22_vec2 Sinv u"
  define v where "v = row2_mat23 y H"
  have "mul22_vec2 S y = mul22_vec2 (mul22_22 S Sinv) u"
    by (simp add: y_def mul22_vec2_assoc)
  then have Sy: "mul22_vec2 S y = u"
    by (simp add: inv mul22_vec2_identity)
  have yu: "dot2 y u = dot3 v (mul33_vec3 \<Sigma> v) + dot2 y (mul22_vec2 (Mat22 (Vec2 q0 0) (Vec2 0 q1)) y)"
    using innovation_quadratic_form [of y H \<Sigma> "Mat22 (Vec2 q0 0) (Vec2 0 q1)"]
    unfolding S [symmetric] Sy v_def .
  have sq: "dot3 (sub3 z v) (mul33_vec3 \<Sigma> (sub3 z v)) =
      dot3 z (mul33_vec3 \<Sigma> z) - 2 * dot2 y u + dot3 v (mul33_vec3 \<Sigma> v)"
    unfolding v_def u_def by (rule completed_square [OF sym])
  have "dot3 z (mul33_vec3 (mul33_33 (sub33 identity33 (mul32_23 K H)) \<Sigma>) z) =
      dot3 z (mul33_vec3 \<Sigma> z) - dot3 z (mul32_vec2 K u)"
    unfolding u_def by (rule corrected_quadratic_form)
  also have "dot3 z (mul32_vec2 K u) = dot3 z (mul32_vec2 (mul33_32 \<Sigma> (transpose23 H)) y)"
    by (simp add: K y_def mul32_vec2_assoc)
  also have "\<dots> = dot2 y u"
    unfolding u_def by (rule gain_pairing [OF sym])
  finally have form: "dot3 z (mul33_vec3 (mul33_33 (sub33 identity33 (mul32_23 K H)) \<Sigma>) z) =
      dot3 (sub3 z v) (mul33_vec3 \<Sigma> (sub3 z v))
      + dot2 y (mul22_vec2 (Mat22 (Vec2 q0 0) (Vec2 0 q1)) y)"
    using yu sq by simp
  have "0 \<le> dot3 (sub3 z v) (mul33_vec3 \<Sigma> (sub3 z v))"
    using psd by (simp add: psd33_def)
  moreover have "0 \<le> dot2 y (mul22_vec2 (Mat22 (Vec2 q0 0) (Vec2 0 q1)) y)"
    using q0 q1 by (rule diagonal_noise_nonneg)
  ultimately show "0 \<le> dot3 z (mul33_vec3 (mul33_33 (sub33 identity33 (mul32_23 K H)) \<Sigma>) z)"
    unfolding form by (rule add_nonneg_nonneg)
qed

lemma innovation_symmetric:
  assumes "symmetric33 \<Sigma>"
  shows "symmetric22 (innovation_cov H \<Sigma> (Mat22 (Vec2 q0 0) (Vec2 0 q1)))"
proof -
  obtain h00 h01 h02 h10 h11 h12 where h: "H = Mat23 (Vec3 h00 h01 h02) (Vec3 h10 h11 h12)"
    by (metis mat23.exhaust vec3.exhaust)
  obtain c00 c01 c02 c10 c11 c12 c20 c21 c22 where
    c: "\<Sigma> = Mat33 (Vec3 c00 c01 c02) (Vec3 c10 c11 c12) (Vec3 c20 c21 c22)"
    by (metis mat33.exhaust vec3.exhaust)
  from assms have s: "c10 = c01" "c20 = c02" "c21 = c12"
    by (simp_all add: c)
  show ?thesis
    by (simp add: h c s innovation_cov_def algebra_simps)
qed

lemma adjugate_symmetric:
  assumes "symmetric22 S"
  shows "symmetric22 (adjugate22 S k)"
proof -
  obtain a b c d where s: "S = Mat22 (Vec2 a b) (Vec2 c d)"
    by (metis mat22.exhaust vec2.exhaust)
  from assms show ?thesis
    by (simp add: s)
qed

lemma correction_symmetric:
  assumes sym: "symmetric33 \<Sigma>" and t: "symmetric22 T"
  shows "symmetric33
    (mul33_33 (sub33 identity33 (mul32_23 (mul32_22 (mul33_32 \<Sigma> (transpose23 H)) T) H)) \<Sigma>)"
proof -
  obtain h00 h01 h02 h10 h11 h12 where h: "H = Mat23 (Vec3 h00 h01 h02) (Vec3 h10 h11 h12)"
    by (metis mat23.exhaust vec3.exhaust)
  obtain c00 c01 c02 c10 c11 c12 c20 c21 c22 where
    c: "\<Sigma> = Mat33 (Vec3 c00 c01 c02) (Vec3 c10 c11 c12) (Vec3 c20 c21 c22)"
    by (metis mat33.exhaust vec3.exhaust)
  obtain t00 t01 t10 t11 where tt: "T = Mat22 (Vec2 t00 t01) (Vec2 t10 t11)"
    by (metis mat22.exhaust vec2.exhaust)
  from sym have s: "c10 = c01" "c20 = c02" "c21 = c12"
    by (simp_all add: c)
  from t have ts: "t10 = t01"
    by (simp add: tt)
  show ?thesis
    by (simp add: h c tt s ts identity33_def algebra_simps)
qed

lemma predicted_cov_symmetric:
  assumes "symmetric33 \<Sigma>"
  shows "symmetric33 (predicted_cov G V (motion_noise v w) \<Sigma>)"
proof -
  obtain g00 g01 g02 g10 g11 g12 g20 g21 g22 where
    g: "G = Mat33 (Vec3 g00 g01 g02) (Vec3 g10 g11 g12) (Vec3 g20 g21 g22)"
    by (metis mat33.exhaust vec3.exhaust)
  obtain c00 c01 c02 c10 c11 c12 c20 c21 c22 where
    c: "\<Sigma> = Mat33 (Vec3 c00 c01 c02) (Vec3 c10 c11 c12) (Vec3 c20 c21 c22)"
    by (metis mat33.exhaust vec3.exhaust)
  obtain v00 v01 v10 v11 v20 v21 where vv: "V = Mat32 (Vec2 v00 v01) (Vec2 v10 v11) (Vec2 v20 v21)"
    by (metis mat32.exhaust vec2.exhaust)
  define m0 where "m0 = (ALPHA1 * \<bar>v\<bar> + ALPHA2 * \<bar>w\<bar>)\<^sup>2"
  define m1 where "m1 = (ALPHA3 * \<bar>v\<bar> + ALPHA4 * \<bar>w\<bar>)\<^sup>2"
  have m: "motion_noise v w = Mat22 (Vec2 m0 0) (Vec2 0 m1)"
    by (simp add: motion_noise_def m0_def m1_def)
  from assms have s: "c10 = c01" "c20 = c02" "c21 = c12"
    by (simp_all add: c)
  show ?thesis
    unfolding m by (simp add: g c vv s predicted_cov_def algebra_simps)
qed

lemma predict_cov_ok:
  assumes "cov_ok (m_cov st)"
  shows "cov_ok (snd (predict v w dt st))"
proof -
  from assms have "psd33 (snd (predict v w dt st))"
    by (simp add: cov_ok_def predict_psd)
  moreover from assms have "symmetric33 (snd (predict v w dt st))"
    by (simp add: cov_ok_def predict_def Let_def predicted_cov_symmetric)
  ultimately show ?thesis
    by (simp add: cov_ok_def)
qed

lemma fuse_cov_ok:
  assumes ok: "cov_ok COV" and f: "fuse lrb l (MU, COV) = Inr (MU', COV')"
  shows "cov_ok COV'"
proof -
  obtain x y \<theta> where mu: "MU = Vec3 x y \<theta>"
    by (cases MU) simp
  obtain range_hat bearing_hat where e: "lrb l x y \<theta> = (range_hat, bearing_hat)"
    by (cases "lrb l x y \<theta>") simp
  define H where "H = jacobian_H l (Vec3 x y \<theta>) range_hat"
  define q0 where "q0 = (l_range l * DETECTION_RANGE_ALPHA)\<^sup>2"
  define q1 where "q1 = DETECTION_ANGLE_SIGMA\<^sup>2"
  define S where "S = innovation_cov H COV (Mat22 (Vec2 q0 0) (Vec2 0 q1))"
  define Sinv where "Sinv = adjugate22 S (1 / determinant22 S)"
  define K where "K = mul32_22 (mul33_32 COV (transpose23 H)) Sinv"
  have q: "measurement_noise l = Mat22 (Vec2 q0 0) (Vec2 0 q1)"
    by (simp add: measurement_noise_def q0_def q1_def)
  from f have r: "range_hat \<noteq> 0"
    by (auto simp add: fuse_def mu e split: if_splits)
  with f have d: "determinant22 S \<noteq> 0"
    unfolding S_def H_def q [symmetric]
    by (auto simp add: fuse_def mu e Let_def inverse22_def simp del: jacobian_H.simps
        split: if_splits)
  from inverse22_right [OF d] have inv: "mul22_22 S Sinv = identity22"
    by (simp add: Sinv_def)
  from d have d': "determinant22 (innovation_cov (jacobian_H l (Vec3 x y \<theta>) range_hat) COV
      (measurement_noise l)) \<noteq> 0"
    by (simp add: S_def H_def q)
  have "fuse lrb l (Vec3 x y \<theta>, COV) =
      Inr (wrap_heading (add3 (Vec3 x y \<theta>)
             (mul32_vec2 K (Vec2 (l_range l - range_hat) (l_bearing l - bearing_hat)))),
           mul33_33 (sub33 identity33 (mul32_23 K H)) COV)"
    using fuse_formula [of lrb l x y \<theta> range_hat bearing_hat COV, OF e r d']
    by (simp add: Let_def K_def Sinv_def S_def H_def q del: jacobian_H.simps)
  with f have cov: "COV' = mul33_33 (sub33 identity33 (mul32_23 K H)) COV"
    by (simp add: mu)
  from ok have sym: "symmetric33 COV" and psd: "psd33 COV"
    by (simp_all add: cov_ok_def)
  have "psd33 COV'"
    unfolding cov
    by (rule correction_psd [OF sym psd _ _ S_def inv K_def]) (simp_all add: q0_def q1_def)
  moreover have "symmetric22 Sinv"
    unfolding Sinv_def S_def by (intro adjugate_symmetric innovation_symmetric sym)
  then have "symmetric33 COV'"
    unfolding cov K_def by (rule correction_symmetric [OF sym])
  ultimately show ?thesis
    by (simp add: cov_ok_def)
qed

lemma correct_cov_ok:
  assumes "cov_ok (snd b)" and "correct lrb l b = Inr b'"
  shows "cov_ok (snd b')"
proof (cases "\<bar>l_range l\<bar> > EPS")
  case True
  with assms(2) have "fuse lrb l (fst b, snd b) = Inr (fst b', snd b')"
    by (simp add: correct_def)
  with assms(1) show ?thesis
    by (rule fuse_cov_ok)
next
  case False
  with assms show ?thesis
    by (simp add: correct_def)
qed

lemma correct_all_cov_ok:
  assumes "cov_ok (snd b)" and "correct_all lrb ls b = Inr b'"
  shows "cov_ok (snd b')"
  using assms
proof (induction ls arbitrary: b)
  case Nil
  then show ?case by simp
next
  case (Cons l ls)
  from Cons.prems(2) obtain b1 where c: "correct lrb l b = Inr b1"
    and r: "correct_all lrb ls b1 = Inr b'"
    by (cases "correct lrb l b") simp_all
  from Cons.prems(1) c have "cov_ok (snd b1)"
    by (rule correct_cov_ok)
  then show ?case
    using r by (rule Cons.IH)
qed

lemma correct_defined:
  assumes ok: "cov_ok (snd b)" and r: "\<And>l x y \<theta>. fst (lrb l x y \<theta>) \<noteq> 0"
  shows "\<exists>b'. correct lrb l b = Inr b'"
proof (cases "\<bar>l_range l\<bar> > EPS")
  case True
  obtain MU COV where b: "b = (MU, COV)"
    by (cases b) simp
  obtain x y \<theta> where mu: "MU = Vec3 x y \<theta>"
    by (cases MU) simp
  obtain range_hat bearing_hat where e: "lrb l x y \<theta> = (range_hat, bearing_hat)"
    by (cases "lrb l x y \<theta>") simp
  from r [of l x y \<theta>] e have rh: "range_hat \<noteq> 0"
    by simp
  from ok have "psd33 COV"
    by (simp add: cov_ok_def b)
  then have d: "determinant22 (innovation_cov (jacobian_H l (Vec3 x y \<theta>) range_hat) COV
      (measurement_noise l)) \<noteq> 0"
    using True by (rule innovation_nonsingular)
  from fuse_formula [of lrb l x y \<theta> range_hat bearing_hat COV, OF e rh d]
  have "\<exists>b'. fuse lrb l (Vec3 x y \<theta>, COV) = Inr b'"
    by (simp add: Let_def del: jacobian_H.simps)
  with True show ?thesis
    by (simp add: correct_def b mu)
next
  case False
  then show ?thesis
    by (simp add: correct_def)
qed

lemma correct_all_defined:
  assumes ok: "cov_ok (snd b)" and r: "\<And>l x y \<theta>. fst (lrb l x y \<theta>) \<noteq> 0"
  shows "\<exists>b'. correct_all lrb ls b = Inr b' \<and> cov_ok (snd b')"
  using ok
proof (induction ls arbitrary: b)
  case Nil
  then show ?case by simp
next
  case (Cons l ls)
  from correct_defined [where b = b and lrb = lrb and l = l, OF Cons.prems r] obtain b1 where c: "correct lrb l b = Inr b1"
    by blast
  from Cons.prems c have "cov_ok (snd b1)"
    by (rule correct_cov_ok)
  from Cons.IH [OF this] c show ?case
    by simp
qed

lemma update_defined:
  assumes ok: "cov_ok (m_cov st)" and r: "\<And>l x y \<theta>. fst (lrb l x y \<theta>) \<noteq> 0"
  shows "\<exists>st'. update lrb v w ls dt st = Inr st' \<and> cov_ok (m_cov st')"
proof -
  from ok have "cov_ok (snd (predict v w dt st))"
    by (rule predict_cov_ok)
  from correct_all_defined [where lrb = lrb and ls = ls, OF this r] obtain b' where
    c: "correct_all lrb ls (predict v w dt st) = Inr b'" and k: "cov_ok (snd b')"
    by blast
  then show ?thesis
    by (cases b') (simp add: update_unfold)
qed

lemma init_cov_ok: "cov_ok (m_cov (init_ekf st))"
  by (simp add: init_ekf_def cov_ok_def psd33_def) (metis vec3.exhaust dot3.simps mult_zero_left mult_zero_right add_0 order_refl)

subsection \<open>Heading range\<close>

text \<open>
  C4 at a failing input: the heading \<open>\<pi>\<close> lies in \<open>(-\<pi>, \<pi>]\<close>; after one \<^verbatim>\<open>update\<close> with
  \<open>v = 0\<close>, \<open>w = ROBOT_YAW_VEL\<close>, \<open>dt = 1\<close> and no landmark, or one skipped landmark, the
  stored heading is \<open>\<pi> + \<pi>/3\<close>, above \<open>\<pi>\<close>: \<^verbatim>\<open>constrain_angle\<close> is called only
  inside the fusion branch.
\<close>

theorem update_heading_exceeds_pi:
  "- pi < yaw \<lparr>m_mu = Vec3 0 0 pi, m_cov = identity33, m_dt = 0\<rparr>
   \<and> yaw \<lparr>m_mu = Vec3 0 0 pi, m_cov = identity33, m_dt = 0\<rparr> \<le> pi
   \<and> (case update landmark_range_bearing 0 ROBOT_YAW_VEL [] 1
              \<lparr>m_mu = Vec3 0 0 pi, m_cov = identity33, m_dt = 0\<rparr> of
         Inl e \<Rightarrow> False
       | Inr st' \<Rightarrow> yaw st' = pi + ROBOT_YAW_VEL * 1 \<and> \<not> yaw st' \<le> pi)
   \<and> (case update landmark_range_bearing 0 ROBOT_YAW_VEL
              [\<lparr>l_x = 1, l_y = 0, l_range = 0, l_bearing = 0\<rparr>] 1
              \<lparr>m_mu = Vec3 0 0 pi, m_cov = identity33, m_dt = 0\<rparr> of
         Inl e \<Rightarrow> False
       | Inr st' \<Rightarrow> yaw st' = pi + ROBOT_YAW_VEL * 1 \<and> \<not> yaw st' \<le> pi)"
proof -
  obtain COV where p: "predict 0 ROBOT_YAW_VEL 1 \<lparr>m_mu = Vec3 0 0 pi, m_cov = identity33, m_dt = 0\<rparr> =
      (Vec3 0 0 (pi + ROBOT_YAW_VEL * 1), COV)"
    using mean_pure_rotation [of 0 0 pi identity33 0] by (metis prod.collapse)
  have w: "0 < ROBOT_YAW_VEL"
    by (simp add: ROBOT_YAW_VEL_def)
  have c: "correct landmark_range_bearing \<lparr>l_x = 1, l_y = 0, l_range = 0, l_bearing = 0\<rparr> b = Inr b" for b
    by (simp add: correct_def EPS_def)
  show ?thesis
    using w by (simp add: update_unfold p c)
qed

subsection \<open>Angle wrapping\<close>

lemma constrain_angle_closed_range:
  assumes "- 3 * pi \<le> \<theta>" and "\<theta> \<le> 3 * pi"
  shows "- pi \<le> constrain_angle \<theta> \<and> constrain_angle \<theta> \<le> pi"
  using assms by (simp add: constrain_angle_def)

lemma constrain_angle_congruent:
  "\<exists>k::int. constrain_angle \<theta> = \<theta> + 2 * pi * real_of_int k"
proof (cases "\<theta> < - pi")
  case True
  then have "constrain_angle \<theta> = \<theta> + 2 * pi * real_of_int 1"
    by (simp add: constrain_angle_def)
  then show ?thesis by blast
next
  case False
  show ?thesis
  proof (cases "\<theta> > pi")
    case True
    with False have "constrain_angle \<theta> = \<theta> + 2 * pi * real_of_int (- 1)"
      by (simp add: constrain_angle_def)
    then show ?thesis by blast
  next
    case nowrap: False
    with False have "constrain_angle \<theta> = \<theta> + 2 * pi * real_of_int 0"
      by (simp add: constrain_angle_def)
    then show ?thesis by blast
  qed
qed

text \<open>
  C7 as stated fails at the lower end of the target interval: \<open>-\<pi>\<close> lies in
  \<open>(-3\<pi>, 3\<pi>)\<close>, it is not below \<open>-\<pi>\<close>, so it is returned unchanged, and \<open>-\<pi>\<close> is not in
  \<open>(-\<pi>, \<pi>]\<close>.
\<close>

theorem constrain_angle_half_open_counterexample:
  "- 3 * pi < - pi \<and> - pi < 3 * pi \<and> constrain_angle (- pi) = - pi
   \<and> \<not> (- pi < constrain_angle (- pi) \<and> constrain_angle (- pi) \<le> pi)"
  by (simp add: constrain_angle_def)

text \<open>
  C7, amended: for every angle \<open>\<theta>\<close> in \<open>(-3\<pi>, 3\<pi>)\<close>, \<open>constrain_angle \<theta>\<close> lies in the
  closed interval \<open>[-\<pi>, \<pi>]\<close>, and in \<open>(-\<pi>, \<pi>]\<close> unless \<open>\<theta> = -\<pi>\<close>; it differs from \<open>\<theta>\<close>
  by an integer multiple of \<open>2\<pi>\<close>; and wrapping twice equals wrapping once.
\<close>

theorem constrain_angle_wrap:
  assumes "- 3 * pi < \<theta>" and "\<theta> < 3 * pi"
  shows "- pi \<le> constrain_angle \<theta> \<and> constrain_angle \<theta> \<le> pi
    \<and> (\<theta> \<noteq> - pi \<longrightarrow> - pi < constrain_angle \<theta>)
    \<and> (\<exists>k::int. constrain_angle \<theta> = \<theta> + 2 * pi * real_of_int k)
    \<and> constrain_angle (constrain_angle \<theta>) = constrain_angle \<theta>"
proof -
  have range: "- pi \<le> constrain_angle \<theta> \<and> constrain_angle \<theta> \<le> pi"
    using assms constrain_angle_closed_range [of \<theta>] by simp
  have strict: "\<theta> \<noteq> - pi \<longrightarrow> - pi < constrain_angle \<theta>"
    using assms by (simp add: constrain_angle_def)
  have idem: "constrain_angle (constrain_angle \<theta>) = constrain_angle \<theta>"
    using range by (simp add: constrain_angle_def [of "constrain_angle \<theta>"])
  from range strict idem constrain_angle_congruent [of \<theta>] show ?thesis
    by blast
qed

theorem constrain_angle_wrap_witness:
  "- 3 * pi < 4 \<and> (4::real) < 3 * pi
   \<and> constrain_angle 4 = 4 - 2 * pi
   \<and> - pi < constrain_angle 4 \<and> constrain_angle 4 \<le> pi
   \<and> constrain_angle (constrain_angle 4) = constrain_angle 4"
proof -
  have lo: "- 3 * pi < 4"
    using pi_gt_zero by linarith
  have hi: "(4::real) < 3 * pi"
    using pi_ge_two by linarith
  have ne: "(4::real) \<noteq> - pi"
    using pi_gt_zero by linarith
  have "\<not> 4 < - pi"
    using pi_gt_zero by linarith
  then have val: "constrain_angle 4 = 4 - 2 * pi"
    using pi_less_4 by (simp add: constrain_angle_def)
  from constrain_angle_wrap [OF lo hi] lo hi ne val show ?thesis
    by simp
qed

subsection \<open>Uncertainty ellipse\<close>










end
